theory Spec2Isabelle
  imports Complex_Main
begin

section \<open>JavaScript values and objects\<close>

text \<open>
  The configuration handled by \<^verbatim>\<open>src/index.js\<close> is a plain JavaScript object whose
  properties hold strings, numbers, booleans, \<^verbatim>\<open>null\<close> or nothing at all. Every test
  the source makes on it (\<^verbatim>\<open>!conf.ipv4\<close>, \<^verbatim>\<open>conf.port || DEFAULT\<close>) is a truthiness test,
  so the values are modelled with their truthiness.
\<close>

datatype jsval = Undefined | Null | JBool bool | NaN | Num int | Str string

fun truthy :: "jsval \<Rightarrow> bool" where
  "truthy Undefined = False"
| "truthy Null = False"
| "truthy (JBool b) = b"
| "truthy NaN = False"
| "truthy (Num n) = (n \<noteq> 0)"
| "truthy (Str s) = (s \<noteq> [])"

text \<open>\<^verbatim>\<open>a || b\<close>\<close>

definition js_or :: "jsval \<Rightarrow> jsval \<Rightarrow> jsval" where
  "js_or a b = (if truthy a then a else b)"

text \<open>An object is a finite map from property names to values; reading a missing
  property gives \<^verbatim>\<open>undefined\<close>.\<close>

type_synonym obj = "string \<rightharpoonup> jsval"

definition jsget :: "obj \<Rightarrow> string \<Rightarrow> jsval" where
  "jsget ob k = (case ob k of None \<Rightarrow> Undefined | Some v \<Rightarrow> v)"

text \<open>\<^verbatim>\<open>_.extend(destination, source)\<close>: every own property of the source is copied
  over the destination's, whatever its value.\<close>

definition js_extend :: "obj \<Rightarrow> obj \<Rightarrow> obj" where
  "js_extend dst src = dst ++ src"

text \<open>What the source throws: an \<^verbatim>\<open>Error\<close> with its message, a \<^verbatim>\<open>TypeError\<close> of the
  runtime, or a bare string (\<^verbatim>\<open>throw '...'\<close>).\<close>

datatype error = Error string | TypeError string | Thrown string

section \<open>Final validation of the configuration (\<^verbatim>\<open>onLoading\<close>, "Configuration errors")\<close>

text \<open>
  \<^verbatim>\<open>
  if(!conf.ipv4 && !conf.ipv6){
    throw new Error("No interface to listen to.");
  }
  if(!conf.remoteipv4 && !conf.remoteipv6 && !conf.remotehost){
    throw new Error('No interface for remote contact.');
  }
  if (!conf.remoteport) {
    throw new Error('No port for remote contact.');
  }
  \<close>
\<close>

definition configurationErrors :: "obj \<Rightarrow> error option" where
  "configurationErrors conf =
     (if \<not> truthy (jsget conf ''ipv4'') \<and> \<not> truthy (jsget conf ''ipv6'')
      then Some (Error ''No interface to listen to.'')
      else if \<not> truthy (jsget conf ''remoteipv4'') \<and> \<not> truthy (jsget conf ''remoteipv6'')
              \<and> \<not> truthy (jsget conf ''remotehost'')
      then Some (Error ''No interface for remote contact.'')
      else if \<not> truthy (jsget conf ''remoteport'')
      then Some (Error ''No port for remote contact.'')
      else None)"

section \<open>Constants of \<^verbatim>\<open>lib/constants\<close>\<close>

text \<open>
  \<^verbatim>\<open>lib/constants.js\<close> is not among the sources, so the three constants the network code
  reads are parameters of the model: the floor of the random port range, the default port
  and the pattern an IPv4 address must match (as the set of strings it accepts).
\<close>

record constants =
  PORT_START :: int
  DEFAULT_PORT :: jsval
  IPV4_REGEXP :: "string \<Rightarrow> bool"

text \<open>\<^verbatim>\<open>x.match(re)\<close> on a value that may not be a string: only strings have the
  method, any other receiver makes the call throw a \<^verbatim>\<open>TypeError\<close>.\<close>

definition jsMatch :: "jsval \<Rightarrow> (string \<Rightarrow> bool) \<Rightarrow> error + bool" where
  "jsMatch v re =
     (case v of Str s \<Rightarrow> Inr (re s) | _ \<Rightarrow> Inl (TypeError ''match is not a function''))"

section \<open>Interface inventory (\<^verbatim>\<open>lib/network.js\<close>)\<close>

text \<open>One entry of \<^verbatim>\<open>os.networkInterfaces()[name]\<close>. Node reports \<^verbatim>\<open>scopeid\<close> for IPv6
  addresses only.\<close>

record netaddr =
  address :: string
  family :: string
  internal :: bool
  scopeid :: "int option"

text \<open>\<^verbatim>\<open>os.networkInterfaces()\<close>: an object keyed by interface name, given as its
  properties in enumeration order.\<close>

type_synonym netInterfaces = "(string \<times> netaddr list) list"

record netInterface =
  name :: string
  addresses :: "netaddr list"

text \<open>
  \<^verbatim>\<open>
  function listInterfaces() {
    const netInterfaces = os.networkInterfaces();
    const keys = _.keys(netInterfaces);
    const res = [];
    for (const name of keys) {
      res.push({ name: name, addresses: netInterfaces[name] });
    }
    return res;
  }
  \<close>
\<close>

definition listInterfaces :: "netInterfaces \<Rightarrow> netInterface list" where
  "listInterfaces nis = map (\<lambda>(n, as). \<lparr>name = n, addresses = as\<rparr>) nis"

subsection \<open>The anchored patterns of the source\<close>

text \<open>Every regular expression of \<^verbatim>\<open>lib/network.js\<close> is a \<^verbatim>\<open>^\<close>-anchored sequence of
  literal characters and \<^verbatim>\<open>\d\<close>.\<close>

datatype atom = Chr char | Digit

definition isDigit :: "char \<Rightarrow> bool" where
  "isDigit c = (c \<in> set ''0123456789'')"

fun atomMatches :: "atom \<Rightarrow> char \<Rightarrow> bool" where
  "atomMatches (Chr d) c = (c = d)"
| "atomMatches Digit c = isDigit c"

fun matchPrefix :: "atom list \<Rightarrow> string \<Rightarrow> bool" where
  "matchPrefix [] s = True"
| "matchPrefix (a # as) [] = False"
| "matchPrefix (a # as) (c # cs) = (atomMatches a c \<and> matchPrefix as cs)"

definition lit :: "string \<Rightarrow> atom list" where
  "lit s = map Chr s"

subsection \<open>\<^verbatim>\<open>getBestLocalIPv6\<close>\<close>

text \<open>
  \<^verbatim>\<open>
  function getBestLocalIPv6() {
    const osInterfaces = listInterfaces();
    for (let netInterface of osInterfaces) {
      const addresses = netInterface.addresses;
      const filtered = _(addresses).where({family: 'IPv6', scopeid: 0, internal: false });
      const filtered2 = _(filtered).filter((address) =>
          !address.address.match(/^fe80/) && !address.address.match(/^::1/));
      if (filtered2[0]) {
        return filtered2[0].address;
      }
    }
    return null;
  }
  \<close>
  \<^verbatim>\<open>_.where\<close> compares with \<^verbatim>\<open>===\<close>.
\<close>

definition whereIPv6 :: "netaddr list \<Rightarrow> netaddr list" where
  "whereIPv6 as =
     filter (\<lambda>a. family a = ''IPv6'' \<and> scopeid a = Some 0 \<and> internal a = False) as"

definition notLinkLocalNorLoopback :: "netaddr \<Rightarrow> bool" where
  "notLinkLocalNorLoopback a =
     (\<not> matchPrefix (lit ''fe80'') (address a) \<and> \<not> matchPrefix (lit ''::1'') (address a))"

fun firstGlobalIPv6 :: "netInterface list \<Rightarrow> jsval" where
  "firstGlobalIPv6 [] = Null"
| "firstGlobalIPv6 (netInterface # rest) =
     (let filtered = whereIPv6 (addresses netInterface);
          filtered2 = filter notLinkLocalNorLoopback filtered
      in case filtered2 of a # _ \<Rightarrow> Str (address a) | [] \<Rightarrow> firstGlobalIPv6 rest)"

definition getBestLocalIPv6 :: "netInterfaces \<Rightarrow> jsval" where
  "getBestLocalIPv6 nis = firstGlobalIPv6 (listInterfaces nis)"

subsection \<open>\<^verbatim>\<open>getBestLocal\<close> and \<^verbatim>\<open>getBestLocalIPv4\<close>\<close>

text \<open>
  \<^verbatim>\<open>
  const interfacePriorityRegCatcher = [
    /^tun\d/, /^enp\ds\d/, /^enp\ds\df\d/, /^eth\d/, /^Ethernet/,
    /^wlp\ds\d/, /^wlan\d/, /^Wi-Fi/, /^lo/, /^Loopback/, /^None/
  ];
  \<close>
\<close>

definition interfacePriorityRegCatcher :: "atom list list" where
  "interfacePriorityRegCatcher =
     [lit ''tun'' @ [Digit],
      lit ''enp'' @ [Digit, Chr CHR ''s'', Digit],
      lit ''enp'' @ [Digit, Chr CHR ''s'', Digit, Chr CHR ''f'', Digit],
      lit ''eth'' @ [Digit],
      lit ''Ethernet'',
      lit ''wlp'' @ [Digit, Chr CHR ''s'', Digit],
      lit ''wlan'' @ [Digit],
      lit ''Wi-Fi'',
      lit ''lo'',
      lit ''Loopback'',
      lit ''None'']"

text \<open>
  The iteratee given to \<^verbatim>\<open>_.sortBy\<close>:
  \<^verbatim>\<open>
  for (let i = 0; i < interfacePriorityRegCatcher.length; i++) {
    // `i` is the priority (0 is the better, 1 is the second, ...)
    if (entry.name.match(interfacePriorityRegCatcher[i])) return i;
  }
  return interfacePriorityRegCatcher.length;
  \<close>
  \<open>priorityFrom rs i\<close> is the loop standing at index \<open>i\<close> with the patterns \<open>rs\<close> left.
\<close>

fun priorityFrom :: "atom list list \<Rightarrow> nat \<Rightarrow> string \<Rightarrow> nat" where
  "priorityFrom [] i nm = i"
| "priorityFrom (r # rs) i nm = (if matchPrefix r nm then i else priorityFrom rs (Suc i) nm)"

definition priority :: "string \<Rightarrow> nat" where
  "priority nm = priorityFrom interfacePriorityRegCatcher 0 nm"

text \<open>\<^verbatim>\<open>_.sortBy(list, iteratee)\<close> of underscore is a stable sort on the iteratee's value
  (equal criteria keep their index order), as \<^const>\<open>sort_key\<close> is.\<close>

definition sortBy :: "('a \<Rightarrow> nat) \<Rightarrow> 'a list \<Rightarrow> 'a list" where
  "sortBy f xs = sort_key f xs"

text \<open>
  The candidates \<^verbatim>\<open>res\<close> are (name, value) entries:
  \<^verbatim>\<open>
  for (const name of keys) {
    let addresses = netInterfaces[name];
    for (const addr of addresses) {
      if (!family || addr.family == family) {
        res.push({ name: name, value: addr.address });
      }
    }
  }
  \<close>
\<close>

definition candidates :: "string \<Rightarrow> netInterfaces \<Rightarrow> (string \<times> string) list" where
  "candidates fam nis =
     concat (map (\<lambda>(nm, as).
        map (\<lambda>addr. (nm, address addr)) (filter (\<lambda>addr. fam = [] \<or> family addr = fam) as)) nis)"

text \<open>
  \<^verbatim>\<open>
  const best = _.sortBy(res, function(entry) { ... })[0];
  return (best && best.value) || "";
  \<close>
\<close>

definition getBestLocal :: "string \<Rightarrow> netInterfaces \<Rightarrow> string" where
  "getBestLocal fam nis =
     (case sortBy (\<lambda>entry. priority (fst entry)) (candidates fam nis) of
        [] \<Rightarrow> []
      | best # _ \<Rightarrow> (if snd best \<noteq> [] then snd best else []))"

definition getBestLocalIPv4 :: "netInterfaces \<Rightarrow> string" where
  "getBestLocalIPv4 nis = getBestLocal ''IPv4'' nis"

subsection \<open>\<^verbatim>\<open>getRandomPort\<close>\<close>

text \<open>\<^verbatim>\<open>~~x\<close> is ToInt32: truncation towards zero, then wrap-around to 32 signed bits.\<close>

definition toInt32 :: "real \<Rightarrow> int" where
  "toInt32 x =
     (let t = (if 0 \<le> x then \<lfloor>x\<rfloor> else \<lceil>x\<rceil>);
          m = t mod 2 ^ 32
      in if 2 ^ 31 \<le> m then m - 2 ^ 32 else m)"

text \<open>
  JavaScript numbers are IEEE 754 doubles, and a product of two of them is the double
  nearest to the exact product, ties going to the even neighbour. \<open>toDouble x\<close> is that
  double: with \<open>e\<close> the binary exponent of \<open>x\<close> (no less than the smallest exponent of a
  normal double, below which the spacing stays that of the subnormals), the doubles around
  \<open>x\<close> are the multiples of \<open>2 powr (e - 52)\<close>. The overflow to infinity is left out: the
  products taken here are below \<open>2 ^ 17\<close>.
\<close>

definition roundTiesToEven :: "real \<Rightarrow> int" where
  "roundTiesToEven y =
     (let f = \<lfloor>y\<rfloor>
      in if y - of_int f < 1 / 2 then f
         else if 1 / 2 < y - of_int f then f + 1
         else if even f then f else f + 1)"

definition minExponent :: int where
  "minExponent = - 1022"

definition toDouble :: "real \<Rightarrow> real" where
  "toDouble x =
     (if x = 0 then 0
      else (let e = max \<lfloor>log 2 \<bar>x\<bar>\<rfloor> minExponent;
                s = 2 powr (of_int e - 52)
            in s * of_int (roundTiesToEven (x / s))))"

text \<open>
  \<^verbatim>\<open>
  function getRandomPort(conf) {
    if (conf && conf.remoteport) {
      return conf.remoteport;
    } else {
      return ~~(Math.random() * (65536 - constants.PORT_START)) + constants.PORT_START;
    }
  }
  \<close>
  \<open>u\<close> is the value \<^verbatim>\<open>Math.random()\<close> returns (the caller draws it): a double at least 0
  and below 1, so at most \<open>1 - 1 / 2 ^ 53\<close>. \<^verbatim>\<open>PORT_START\<close> is an integer, so the
  subtraction and the final addition are exact; the product is rounded to a double before
  \<^verbatim>\<open>~~\<close> truncates it. Every caller passes an object, so \<^verbatim>\<open>conf\<close> itself is truthy.
\<close>

definition getRandomPort :: "constants \<Rightarrow> obj \<Rightarrow> real \<Rightarrow> jsval" where
  "getRandomPort K conf u =
     (if truthy (jsget conf ''remoteport'') then jsget conf ''remoteport''
      else Num (toInt32 (toDouble (u * real_of_int (65536 - PORT_START K))) + PORT_START K))"

subsection \<open>\<^verbatim>\<open>upnpConf\<close>\<close>

text \<open>The answers of the gateway to the three requests of the UPnP client (\<^verbatim>\<open>nnupnp\<close>):
  each is an error or a value; the port mapping is asked for a public and a private port.\<close>

record upnpClient =
  externalIp :: "error + jsval"
  portMapping :: "jsval \<Rightarrow> jsval \<Rightarrow> error option"
  findGateway :: "error + jsval"

text \<open>
  \<^verbatim>\<open>
  const conf = {};
  const privatePort = getRandomPort(conf);
  const publicPort = privatePort;
  if (noupnp) {
    throw Error('No UPnP');
  }
  const publicIP = yield Q.nbind(client.externalIp, client)();
  yield Q.nbind(client.portMapping, client)({ public: publicPort, private: privatePort, ttl: 120 });
  const privateIP = yield Q.Promise((resolve, reject) => {
    client.findGateway((err, res, localIP) => {
      if (err) return reject(err);
      resolve(localIP);
    });
  });
  conf.remoteipv4 = publicIP.match(constants.IPV4_REGEXP) ? publicIP : null;
  conf.remoteport = publicPort;
  conf.port = privatePort;
  conf.ipv4 = privateIP.match(constants.IPV4_REGEXP) ? privateIP : null;
  return conf;
  \<close>
\<close>

definition upnpConf :: "constants \<Rightarrow> jsval \<Rightarrow> upnpClient \<Rightarrow> real \<Rightarrow> error + obj" where
  "upnpConf K noupnp client u =
     (let conf = Map.empty;
          privatePort = getRandomPort K conf u;
          publicPort = privatePort
      in if truthy noupnp then Inl (Error ''No UPnP'')
         else case externalIp client of
           Inl err \<Rightarrow> Inl err
         | Inr publicIP \<Rightarrow>
            (case portMapping client publicPort privatePort of
               Some err \<Rightarrow> Inl err
             | None \<Rightarrow>
                (case findGateway client of
                   Inl err \<Rightarrow> Inl err
                 | Inr privateIP \<Rightarrow>
                    (case jsMatch publicIP (IPV4_REGEXP K) of
                       Inl err \<Rightarrow> Inl err
                     | Inr m4 \<Rightarrow>
                        (let conf = conf(''remoteipv4'' \<mapsto> (if m4 then publicIP else Null));
                             conf = conf(''remoteport'' \<mapsto> publicPort);
                             conf = conf(''port'' \<mapsto> privatePort)
                         in case jsMatch privateIP (IPV4_REGEXP K) of
                              Inl err \<Rightarrow> Inl err
                            | Inr m \<Rightarrow>
                                Inr (conf(''ipv4'' \<mapsto> (if m then privateIP else Null))))))))"

section \<open>Network configuration resolver (\<^verbatim>\<open>index.js\<close>)\<close>

text \<open>What the resolver reads from outside: the interfaces of the host, the answers of the
  gateway and the successive values of \<^verbatim>\<open>Math.random()\<close>.\<close>

record environment =
  osInterfaces :: netInterfaces
  upnpGateway :: upnpClient
  mathRandom :: "nat \<Rightarrow> real"

text \<open>The answers of the operator to the prompts of the interactive mode (\<^verbatim>\<open>inquirer\<close>),
  one per question the source can ask.\<close>

record operator =
  answerIpv4 :: jsval
  answerIpv6 :: jsval
  answerPort :: jsval
  answerRemoteipv4 :: jsval
  answerNewRemoteipv4 :: jsval
  answerRemoteport :: jsval
  answerRemotehost :: jsval
  keepUPnPBinding :: bool
  isPublicServer :: bool
  hasDNSName :: bool
  useUPnPMapping :: bool

text \<open>
  \<^verbatim>\<open>
  function upnpResolve(noupnp, logger, done) {
    return co(function *() {
      try {
        let conf = yield network.upnpConf(noupnp, logger);
        done(null, true, conf);
      } catch (err) {
        done(null, false, {});
      }
    });
  }
  \<close>
  The result is the argument list given to \<^verbatim>\<open>done\<close>: the error, the success flag and the
  probed configuration.
\<close>

definition upnpResolve ::
  "constants \<Rightarrow> environment \<Rightarrow> jsval \<Rightarrow> error option \<times> bool \<times> obj" where
  "upnpResolve K env noupnp =
     (case upnpConf K noupnp (upnpGateway env) (mathRandom env 0) of
        Inr conf \<Rightarrow> (None, True, conf)
      | Inl err \<Rightarrow> (None, False, Map.empty))"

text \<open>A task of an \<^verbatim>\<open>async.waterfall\<close>: it receives what the previous task passed to
  \<^verbatim>\<open>next\<close> and the configuration object, which it mutates. None of the tasks of the
  source passes an error to \<^verbatim>\<open>next\<close>.\<close>

type_synonym task = "obj \<Rightarrow> obj \<Rightarrow> obj \<times> obj"

fun waterfall :: "task list \<Rightarrow> obj \<Rightarrow> obj \<Rightarrow> obj" where
  "waterfall [] args conf = conf"
| "waterfall (t # ts) args conf = (case t args conf of (args', conf') \<Rightarrow> waterfall ts args' conf')"

text \<open>
  \<^verbatim>\<open>getLocalNetworkOperations(conf, autoconf)\<close>: the local IPv4, the local IPv6 (which
  also seeds \<^verbatim>\<open>remoteipv6\<close>) and the local port. The lists of choices the prompts show
  are left out; what the operator picks is the answer.
  \<^verbatim>\<open>
  function (next){
    ...
    if (autoconf) {
      conf.ipv4 = network.getBestLocalIPv4();
      return next();
    }
    inquirer.prompt([...], function (answers) { conf.ipv4 = answers.ipv4; next(); });
  },
  function (next){
    ...
    if (autoconf || !conf.ipv6) {
      conf.ipv6 = conf.remoteipv6 = network.getBestLocalIPv6();
    }
    if (autoconf) {
      return next();
    }
    inquirer.prompt([...], function (answers) {
      conf.ipv6 = conf.remoteipv6 = answers.ipv6;
      next();
    });
  },
  autoconf ? (done) => {
      conf.port = network.getRandomPort(conf);
      done();
    } : async.apply(simpleInteger, "Port", "port", conf)
  \<close>
  The probe has taken the first value of \<^verbatim>\<open>Math.random()\<close>; a draw here is the second.
\<close>

definition getLocalNetworkOperations ::
  "constants \<Rightarrow> environment \<Rightarrow> operator \<Rightarrow> bool \<Rightarrow> task list" where
  "getLocalNetworkOperations K env opr autoconf =
     [\<lambda>args conf.
        if autoconf then (Map.empty, conf(''ipv4'' \<mapsto> Str (getBestLocalIPv4 (osInterfaces env))))
        else (Map.empty, conf(''ipv4'' \<mapsto> answerIpv4 opr)),
      \<lambda>args conf.
        let conf = (if autoconf \<or> \<not> truthy (jsget conf ''ipv6'')
                    then conf(''remoteipv6'' \<mapsto> getBestLocalIPv6 (osInterfaces env),
                              ''ipv6'' \<mapsto> getBestLocalIPv6 (osInterfaces env))
                    else conf)
        in if autoconf then (Map.empty, conf)
           else (Map.empty, conf(''remoteipv6'' \<mapsto> answerIpv6 opr, ''ipv6'' \<mapsto> answerIpv6 opr)),
      \<lambda>args conf.
        if autoconf then (Map.empty, conf(''port'' \<mapsto> getRandomPort K conf (mathRandom env 1)))
        else (Map.empty, conf(''port'' \<mapsto> answerPort opr))]"

text \<open>
  \<^verbatim>\<open>getRemoteNetworkOperations(conf, remoteipv4)\<close>: the first task hands the answers
  to the second one.
  \<^verbatim>\<open>
  function (next){
    if (!conf.ipv4) {
      conf.remoteipv4 = null;
      return next(null, {});
    }
    ...
    inquirer.prompt([...], function (answers) {
      if (answers.remoteipv4 == "new") {
        inquirer.prompt([...], async.apply(next, null));
      } else {
        next(null, answers);
      }
    });
  },
  function (answers, next){
    conf.remoteipv4 = answers.remoteipv4;
    ...
      if (conf.remoteipv4 || conf.remotehost) {
        ... simpleInteger, "Remote port", "remoteport", conf ...
      } else if (conf.remoteipv6) {
        conf.remoteport = conf.port;
      }
      next();
    ...
  }
  \<close>
\<close>

definition getRemoteNetworkOperations :: "operator \<Rightarrow> task list" where
  "getRemoteNetworkOperations opr =
     [\<lambda>args conf.
        if \<not> truthy (jsget conf ''ipv4'') then (Map.empty, conf(''remoteipv4'' \<mapsto> Null))
        else if answerRemoteipv4 opr = Str ''new''
        then ([''remoteipv4'' \<mapsto> answerNewRemoteipv4 opr], conf)
        else ([''remoteipv4'' \<mapsto> answerRemoteipv4 opr], conf),
      \<lambda>answers conf.
        let conf = conf(''remoteipv4'' \<mapsto> jsget answers ''remoteipv4'')
        in if truthy (jsget conf ''remoteipv4'') \<or> truthy (jsget conf ''remotehost'')
           then (Map.empty, conf(''remoteport'' \<mapsto> answerRemoteport opr))
           else if truthy (jsget conf ''remoteipv6'')
           then (Map.empty, conf(''remoteport'' \<mapsto> jsget conf ''port''))
           else (Map.empty, conf)]"

text \<open>
  \<^verbatim>\<open>
  function getHostnameOperations(conf, logger, autoconf) {
    return [function(next) {
      if (!conf.ipv4) {
        conf.remotehost = null;
        return next();
      }
      if (autoconf) {
        logger.info('DNS: %s', conf.remotehost || 'No');
        return next();
      }
      choose("Does this server has a DNS name?", !!conf.remotehost,
        function() { simpleValue("DNS name:", "remotehost", "", conf, ..., next); },
        function() { conf.remotehost = null; next(); });
    }];
  }
  \<close>
\<close>

definition getHostnameOperations :: "operator \<Rightarrow> bool \<Rightarrow> task list" where
  "getHostnameOperations opr autoconf =
     [\<lambda>args conf.
        if \<not> truthy (jsget conf ''ipv4'') then (Map.empty, conf(''remotehost'' \<mapsto> Null))
        else if autoconf then (Map.empty, conf)
        else if hasDNSName opr then (Map.empty, conf(''remotehost'' \<mapsto> answerRemotehost opr))
        else (Map.empty, conf(''remotehost'' \<mapsto> Null))]"

text \<open>
  \<^verbatim>\<open>
  function getUseUPnPOperations(conf, logger, autoconf) {
    return [function(next) {
      if (!conf.ipv4) {
        conf.upnp = false;
        return next();
      }
      if (autoconf) {
        logger.info('UPnP: %s', 'Yes');
        conf.upnp = true;
        return next();
      }
      choose("UPnP is available: use automatic port mapping? (easier)", conf.upnp,
        function() { conf.upnp = true; next(); },
        function() { conf.upnp = false; next(); });
    }];
  }
  \<close>
\<close>

definition getUseUPnPOperations :: "operator \<Rightarrow> bool \<Rightarrow> task list" where
  "getUseUPnPOperations opr autoconf =
     [\<lambda>args conf.
        if \<not> truthy (jsget conf ''ipv4'') then (Map.empty, conf(''upnp'' \<mapsto> JBool False))
        else if autoconf then (Map.empty, conf(''upnp'' \<mapsto> JBool True))
        else if useUPnPMapping opr then (Map.empty, conf(''upnp'' \<mapsto> JBool True))
        else (Map.empty, conf(''upnp'' \<mapsto> JBool False))]"

text \<open>
  The closing task of the two "local configuration = remote configuration" branches:
  \<^verbatim>\<open>
  function (confDone) {
    conf.remoteipv4 = conf.ipv4;
    conf.remoteipv6 = conf.ipv6;
    conf.remoteport = conf.port;
    confDone();
  }
  \<close>
\<close>

definition mirrorLocal :: task where
  "mirrorLocal args conf =
     (Map.empty, conf(''remoteipv4'' \<mapsto> jsget conf ''ipv4'',
                      ''remoteipv6'' \<mapsto> jsget conf ''ipv6'',
                      ''remoteport'' \<mapsto> jsget conf ''port''))"

text \<open>
  \<^verbatim>\<open>networkReconfiguration(conf, autoconf, logger, noupnp, done)\<close>: the waterfall of
  \<^verbatim>\<open>upnpResolve\<close> and of the function that takes \<^verbatim>\<open>(upnpSuccess, upnpConf, next)\<close>. An
  error given by the first task goes to \<^verbatim>\<open>done\<close> at once; otherwise \<^verbatim>\<open>done\<close> is called
  when the inner waterfall ends, and the result is the configuration object as mutated.
\<close>

definition networkReconfiguration ::
  "constants \<Rightarrow> environment \<Rightarrow> operator \<Rightarrow> obj \<Rightarrow> bool \<Rightarrow> jsval \<Rightarrow> error + obj" where
  "networkReconfiguration K env opr conf0 autoconf noupnp =
     (case upnpResolve K env noupnp of
        (Some err, _, _) \<Rightarrow> Inl err
      | (None, upnpSuccess, upnpConf') \<Rightarrow>
          (let conf = conf0(''port'' \<mapsto> js_or (jsget conf0 ''port'') (DEFAULT_PORT K));
               conf = conf(''remoteport'' \<mapsto> js_or (jsget conf ''remoteport'') (DEFAULT_PORT K));
               localOperations = getLocalNetworkOperations K env opr autoconf;
               remoteOpertions = getRemoteNetworkOperations opr;
               dnsOperations = getHostnameOperations opr autoconf;
               useUPnPOperations = getUseUPnPOperations opr autoconf
           in if upnpSuccess then
                (let conf = js_extend conf upnpConf'
                 in if autoconf then
                      (let conf = conf(''remoteipv6'' \<mapsto> getBestLocalIPv6 (osInterfaces env),
                                       ''ipv6'' \<mapsto> getBestLocalIPv6 (osInterfaces env))
                       in Inr (waterfall (useUPnPOperations @ dnsOperations) Map.empty conf))
                    else if keepUPnPBinding opr then
                      (let conf = conf(''remoteipv6'' \<mapsto> getBestLocalIPv6 (osInterfaces env),
                                       ''ipv6'' \<mapsto> getBestLocalIPv6 (osInterfaces env))
                       in Inr (waterfall (useUPnPOperations @ dnsOperations) Map.empty conf))
                    else
                      Inr (waterfall (localOperations @ remoteOpertions @ useUPnPOperations
                                        @ dnsOperations) Map.empty conf))
              else
                (let conf = conf(''upnp'' \<mapsto> JBool False)
                 in if autoconf then
                      Inr (waterfall (localOperations @ getHostnameOperations opr autoconf
                                        @ [mirrorLocal]) Map.empty conf)
                    else if isPublicServer opr then
                      Inr (waterfall (localOperations @ getHostnameOperations opr False
                                        @ [mirrorLocal]) Map.empty conf)
                    else
                      Inr (waterfall (localOperations @ remoteOpertions @ dnsOperations)
                             Map.empty conf))))"

text \<open>
  \<^verbatim>\<open>config.onLoading(conf, program, logger)\<close>, in two parts: \<open>beforeValidation\<close> is the
  body up to the comment "Configuration errors" (the overrides of the command line, the
  remote defaults, the automatic network configuration and the UPnP flag), and
  \<open>onLoading\<close> ends it with the three checks of \<^const>\<open>configurationErrors\<close>. When it
  calls \<^verbatim>\<open>networkReconfiguration\<close>, the autoconf argument is \<^verbatim>\<open>autoconfNet\<close>, which is
  truthy there. A rejected \<^verbatim>\<open>networkReconfiguration\<close> and a failed validation both reject
  the promise of \<^verbatim>\<open>onLoading\<close>.
  \<^verbatim>\<open>
  if (program.port) conf.port = program.port;
  ... (ipv4, ipv6, remoteh, remote4, remote6, remotep alike)
  if (!conf.remoteipv4 && conf.ipv4) { conf.remoteipv4 = conf.ipv4; }
  if (!conf.remoteipv6 && conf.ipv6) { conf.remoteipv6 = conf.ipv6; }
  if (!conf.remoteport && conf.port) { conf.remoteport = conf.port; }
  const autoconfNet = program.autoconf
    || !(conf.ipv4 || conf.ipv6)
    || !(conf.remoteipv4 || conf.remoteipv6 || conf.remotehost)
    || !(conf.port && conf.remoteport);
  if (autoconfNet) {
    yield Q.nbind(networkReconfiguration, null)(conf, autoconfNet, logger, program.noupnp);
  }
  if (conf.upnp === undefined || conf.upnp === null) { conf.upnp = true; }
  if (program.noupnp === true) { conf.upnp = false; }
  if (program.upnp === true) { conf.upnp = true; }
  \<close>
\<close>

definition override :: "obj \<Rightarrow> string \<Rightarrow> jsval \<Rightarrow> obj" where
  "override conf k v = (if truthy v then conf(k \<mapsto> v) else conf)"

definition defaultRemote :: "obj \<Rightarrow> string \<Rightarrow> string \<Rightarrow> obj" where
  "defaultRemote conf remote local =
     (if \<not> truthy (jsget conf remote) \<and> truthy (jsget conf local)
      then conf(remote \<mapsto> jsget conf local) else conf)"

definition beforeValidation ::
  "constants \<Rightarrow> environment \<Rightarrow> operator \<Rightarrow> obj \<Rightarrow> obj \<Rightarrow> error + obj" where
  "beforeValidation K env opr conf0 program =
     (let conf = override conf0 ''port'' (jsget program ''port'');
          conf = override conf ''ipv4'' (jsget program ''ipv4'');
          conf = override conf ''ipv6'' (jsget program ''ipv6'');
          conf = override conf ''remotehost'' (jsget program ''remoteh'');
          conf = override conf ''remoteipv4'' (jsget program ''remote4'');
          conf = override conf ''remoteipv6'' (jsget program ''remote6'');
          conf = override conf ''remoteport'' (jsget program ''remotep'');
          conf = defaultRemote conf ''remoteipv4'' ''ipv4'';
          conf = defaultRemote conf ''remoteipv6'' ''ipv6'';
          conf = defaultRemote conf ''remoteport'' ''port'';
          autoconfNet = (truthy (jsget program ''autoconf'')
            \<or> \<not> (truthy (jsget conf ''ipv4'') \<or> truthy (jsget conf ''ipv6''))
            \<or> \<not> (truthy (jsget conf ''remoteipv4'') \<or> truthy (jsget conf ''remoteipv6'')
                   \<or> truthy (jsget conf ''remotehost''))
            \<or> \<not> (truthy (jsget conf ''port'') \<and> truthy (jsget conf ''remoteport'')))
      in case (if autoconfNet
               then networkReconfiguration K env opr conf True (jsget program ''noupnp'')
               else Inr conf) of
           Inl err \<Rightarrow> Inl err
         | Inr conf \<Rightarrow>
            (let conf = (if jsget conf ''upnp'' = Undefined \<or> jsget conf ''upnp'' = Null
                         then conf(''upnp'' \<mapsto> JBool True) else conf);
                 conf = (if jsget program ''noupnp'' = JBool True
                         then conf(''upnp'' \<mapsto> JBool False) else conf);
                 conf = (if jsget program ''upnp'' = JBool True
                         then conf(''upnp'' \<mapsto> JBool True) else conf)
             in Inr conf))"

definition onLoading ::
  "constants \<Rightarrow> environment \<Rightarrow> operator \<Rightarrow> obj \<Rightarrow> obj \<Rightarrow> error + obj" where
  "onLoading K env opr conf0 program =
     (case beforeValidation K env opr conf0 program of
        Inl err \<Rightarrow> Inl err
      | Inr conf \<Rightarrow>
         (case configurationErrors conf of Some err \<Rightarrow> Inl err | None \<Rightarrow> Inr conf))"

section \<open>Listener lifecycle (\<^verbatim>\<open>createServersAndListen\<close> in \<^verbatim>\<open>lib/network.js\<close>)\<close>

text \<open>
  One entry per configured interface: \<^verbatim>\<open>interfaces[i]\<close> (\<open>ifaceIp\<close>, \<open>ifacePort\<close>),
  \<^verbatim>\<open>listenings[i]\<close> (\<open>listening\<close>) and \<^verbatim>\<open>httpServers[i]\<close>: the keys of its socket registry
  \<^verbatim>\<open>sockets\<close> in enumeration order, its counter \<^verbatim>\<open>nextSocketId\<close>, and whether the property
  \<^verbatim>\<open>httpServer.errorPropagates\<close> has been assigned.
\<close>

record listener =
  ifaceIp :: string
  ifacePort :: jsval
  listening :: bool
  sockets :: "nat list"
  nextSocketId :: nat
  errorPropagates :: bool

text \<open>What the lifecycle does to the operating system, in the order it does it; the
  number is the index of the interface.\<close>

datatype event = Bound nat | BindFailed nat | DestroySocket nat nat | CloseServer nat

text \<open>
  \<^verbatim>\<open>
  const httpServers = interfaces.map(() => {
    const httpServer = http.createServer(app);
    const sockets = {};
    let nextSocketId = 0;
    ...
  });
  const listenings = interfaces.map(() => false);
  if (httpServers.length == 0){
    throw 'Duniter does not have any interface to listen to.';
  }
  \<close>
\<close>

definition createServersAndListen :: "(string \<times> jsval) list \<Rightarrow> error + listener list" where
  "createServersAndListen interfaces =
     (let httpServers = map (\<lambda>(i, p). \<lparr>ifaceIp = i, ifacePort = p, listening = False,
                                         sockets = [], nextSocketId = 0,
                                         errorPropagates = False\<rparr>) interfaces
      in if length httpServers = 0
         then Inl (Thrown ''Duniter does not have any interface to listen to.'')
         else Inr httpServers)"

text \<open>
  \<^verbatim>\<open>
  httpServer.on('connection', (socket) => {
    const socketId = nextSocketId++;
    sockets[socketId] = socket;
    socket.on('close', () => {
      delete sockets[socketId];
    });
  });
  \<close>
  The keys of the registry are integers, which an object enumerates in ascending order.
\<close>

definition onConnection :: "listener \<Rightarrow> listener" where
  "onConnection l =
     (let socketId = nextSocketId l
      in l\<lparr>nextSocketId := Suc socketId,
           sockets := (if socketId \<in> set (sockets l) then sockets l
                       else insort socketId (sockets l))\<rparr>)"

definition onSocketClose :: "nat \<Rightarrow> listener \<Rightarrow> listener" where
  "onSocketClose socketId l = l\<lparr>sockets := removeAll socketId (sockets l)\<rparr>"

text \<open>
  \<^verbatim>\<open>
  closeSockets: () => {
    _.keys(sockets).map((socketId) => {
      sockets[socketId].destroy();
    });
  }
  \<close>
  \<^verbatim>\<open>destroy()\<close> ends the connection at once, without waiting for the peer, and returns.
  It deletes nothing from the registry: a key goes when the socket later emits
  \<^verbatim>\<open>'close'\<close>, which runs the handler above (\<open>onSocketClose\<close>), after \<^verbatim>\<open>closeConnections\<close>
  has gone on.
\<close>

definition closeSockets :: "nat \<Rightarrow> listener \<Rightarrow> listener \<times> event list" where
  "closeSockets i l = (l, map (DestroySocket i) (sockets l))"

text \<open>
  \<^verbatim>\<open>
  closeConnections: () => co(function *() {
    for (let i = 0, len = httpServers.length; i < len; i++) {
      const httpServer = httpServers[i].http;
      const isListening = listenings[i];
      if (isListening) {
        listenings[i] = false;
        yield Q.Promise((resolve, reject) => {
          httpServer.errorPropagates((err) => { reject(err); });
          httpServers[i].closeSockets();
          httpServer.close((err) => {
            err && logger && logger.error(err.stack || err);
            resolve();
          });
        });
      }
    }
    return [];
  })
  \<close>
  \<^verbatim>\<open>httpServer.errorPropagates(...)\<close> is a call: it throws a \<^verbatim>\<open>TypeError\<close> when the property
  was never assigned, which rejects the promise and ends the loop; otherwise it calls the
  \<^verbatim>\<open>reject\<close> of a promise that \<^verbatim>\<open>openConnections\<close> has settled, to no effect.
\<close>

fun closeConnectionsFrom :: "nat \<Rightarrow> listener list \<Rightarrow> error option \<times> listener list \<times> event list" where
  "closeConnectionsFrom i [] = (None, [], [])"
| "closeConnectionsFrom i (l # ls) =
     (if listening l then
        (let l = l\<lparr>listening := False\<rparr>
         in if \<not> errorPropagates l
            then (Some (TypeError ''httpServer.errorPropagates is not a function''), l # ls, [])
            else (case closeSockets i l of
                    (l', destroyed) \<Rightarrow>
                      (case closeConnectionsFrom (Suc i) ls of
                         (err, ls', evs) \<Rightarrow> (err, l' # ls', destroyed @ [CloseServer i] @ evs))))
      else (case closeConnectionsFrom (Suc i) ls of
              (err, ls', evs) \<Rightarrow> (err, l # ls', evs)))"

definition closeConnections :: "listener list \<Rightarrow> error option \<times> listener list \<times> event list" where
  "closeConnections httpServers = closeConnectionsFrom 0 httpServers"

text \<open>
  \<^verbatim>\<open>
  openConnections: () => co(function *() {
    for (let i = 0, len = httpServers.length; i < len; i++) {
      const httpServer = httpServers[i].http;
      const isListening = listenings[i];
      if (!isListening) {
        const netInterface = interfaces[i].ip;
        const port = interfaces[i].port;
        try {
          yield Q.Promise((resolve, reject) => {
            httpServer.errorPropagates = function(err) { reject(err); };
            httpServer.listen(port, netInterface, (err) => {
              if (err) return reject(err);
              listenings[i] = true;
              resolve(httpServer);
            });
          });
          logger && logger.info(...);
        } catch (e) {
          logger && logger.warn('Could NOT listen to http://' + netInterface + ':' + port);
          logger && logger.warn(e);
        }
      }
    }
    return [];
  })
  \<close>
  \<open>canBind i\<close> tells whether the operating system lets the server of entry \<open>i\<close> listen on
  its address and port when this call reaches it (the answer may depend on what the entries
  before it have bound); a refusal reaches \<^verbatim>\<open>errorPropagates\<close> through the server's
  \<^verbatim>\<open>'error'\<close> event and is caught.
\<close>

fun openConnectionsFrom ::
  "(nat \<Rightarrow> string \<Rightarrow> jsval \<Rightarrow> bool) \<Rightarrow> nat \<Rightarrow> listener list
     \<Rightarrow> error option \<times> listener list \<times> event list" where
  "openConnectionsFrom canBind i [] = (None, [], [])"
| "openConnectionsFrom canBind i (l # ls) =
     (if \<not> listening l then
        (let l = l\<lparr>errorPropagates := True\<rparr>;
             (l', ev) = (if canBind i (ifaceIp l) (ifacePort l)
                         then (l\<lparr>listening := True\<rparr>, Bound i)
                         else (l, BindFailed i))
         in case openConnectionsFrom canBind (Suc i) ls of
              (err, ls', evs) \<Rightarrow> (err, l' # ls', ev # evs))
      else (case openConnectionsFrom canBind (Suc i) ls of
              (err, ls', evs) \<Rightarrow> (err, l # ls', evs)))"

definition openConnections ::
  "(nat \<Rightarrow> string \<Rightarrow> jsval \<Rightarrow> bool) \<Rightarrow> listener list \<Rightarrow> error option \<times> listener list \<times> event list" where
  "openConnections canBind httpServers = openConnectionsFrom canBind 0 httpServers"

text \<open>The listener sets a running node can be in: the one \<^verbatim>\<open>createServersAndListen\<close>
  returns, and those reached from it by \<^verbatim>\<open>openConnections\<close>, \<^verbatim>\<open>closeConnections\<close>, a
  connection accepted by a listening server and the end of a connection.\<close>

inductive reachable :: "listener list \<Rightarrow> bool" where
  created: "createServersAndListen interfaces = Inr ls \<Longrightarrow> reachable ls"
| opened: "reachable ls \<Longrightarrow> openConnections canBind ls = (err, ls', evs) \<Longrightarrow> reachable ls'"
| closed: "reachable ls \<Longrightarrow> closeConnections ls = (err, ls', evs) \<Longrightarrow> reachable ls'"
| accepted: "reachable ls \<Longrightarrow> i < length ls \<Longrightarrow> listening (ls ! i)
     \<Longrightarrow> reachable (ls[i := onConnection (ls ! i)])"
| ended: "reachable ls \<Longrightarrow> i < length ls \<Longrightarrow> reachable (ls[i := onSocketClose socketId (ls ! i)])"

text \<open>What holds of every entry of a reachable listener set: the listening flag is raised
  only after \<^verbatim>\<open>errorPropagates\<close> was assigned.\<close>

definition consistent :: "listener \<Rightarrow> bool" where
  "consistent l = (listening l \<longrightarrow> errorPropagates l)"

section \<open>Sample data for the examples\<close>

fun splitOn :: "char \<Rightarrow> string \<Rightarrow> string list" where
  "splitOn c [] = [[]]"
| "splitOn c (x # xs) =
     (case splitOn c xs of
        w # ws \<Rightarrow> (if x = c then [] # w # ws else (x # w) # ws)
      | [] \<Rightarrow> [])"

definition digitsValue :: "string \<Rightarrow> nat" where
  "digitsValue s = foldl (\<lambda>n c. 10 * n + (of_char c - 48)) 0 s"

definition octet :: "string \<Rightarrow> bool" where
  "octet s = (s \<noteq> [] \<and> length s \<le> 3 \<and> list_all isDigit s \<and> digitsValue s \<le> 255)"

text \<open>Modelled from the spec: \<^verbatim>\<open>constants.IPV4_REGEXP\<close> of \<^verbatim>\<open>lib/constants.js\<close>, which is
  not among the sources; the spec calls it a dotted-quad pattern. Four decimal octets
  separated by dots.\<close>

definition dottedQuad :: "string \<Rightarrow> bool" where
  "dottedQuad s =
     (case splitOn CHR ''.'' s of
        [a, b, c, d] \<Rightarrow> octet a \<and> octet b \<and> octet c \<and> octet d
      | _ \<Rightarrow> False)"

text \<open>Modelled from the spec: the constants of \<^verbatim>\<open>lib/constants.js\<close>, which is not among
  the sources; the spec gives a constant floor of the port range and no values, so these
  are sample values. They instantiate the examples only: every theorem below holds
  for all constants.\<close>

definition sampleConstants :: constants where
  "sampleConstants = \<lparr>PORT_START = 15000, DEFAULT_PORT = Num 10901, IPV4_REGEXP = dottedQuad\<rparr>"

text \<open>A host with a loopback and one wired interface, behind a gateway that answers the
  UPnP requests; \<^verbatim>\<open>Math.random()\<close> returns a double that makes the probed port 20900.\<close>

definition sampleInterfaces :: netInterfaces where
  "sampleInterfaces =
     [(''lo'', [\<lparr>address = ''127.0.0.1'', family = ''IPv4'', internal = True, scopeid = None\<rparr>,
                \<lparr>address = ''::1'', family = ''IPv6'', internal = True, scopeid = Some 0\<rparr>]),
      (''eth0'', [\<lparr>address = ''192.168.1.10'', family = ''IPv4'', internal = False, scopeid = None\<rparr>,
                  \<lparr>address = ''fe80::1c2d:3eff:fe4f:5a6b'', family = ''IPv6'', internal = False,
                    scopeid = Some 2\<rparr>,
                  \<lparr>address = ''2001:db8::10'', family = ''IPv6'', internal = False,
                    scopeid = Some 0\<rparr>])]"

definition sampleGateway :: upnpClient where
  "sampleGateway = \<lparr>externalIp = Inr (Str ''203.0.113.5''), portMapping = (\<lambda>pub priv. None),
                     findGateway = Inr (Str ''192.168.1.10'')\<rparr>"

definition sampleEnv :: environment where
  "sampleEnv = \<lparr>osInterfaces = sampleInterfaces, upnpGateway = sampleGateway,
                 mathRandom = (\<lambda>n. 122429 / 1048576)\<rparr>"

text \<open>The same host with no gateway in reach, and a host with no interface at all.\<close>

definition noGateway :: upnpClient where
  "noGateway = \<lparr>externalIp = Inl (Error ''timeout''), portMapping = (\<lambda>pub priv. Some (Error ''timeout'')),
                 findGateway = Inl (Error ''timeout'')\<rparr>"

definition isolatedEnv :: environment where
  "isolatedEnv = \<lparr>osInterfaces = sampleInterfaces, upnpGateway = noGateway,
                   mathRandom = (\<lambda>n. 122429 / 1048576)\<rparr>"

definition offlineEnv :: environment where
  "offlineEnv = \<lparr>osInterfaces = [], upnpGateway = noGateway, mathRandom = (\<lambda>n. 0)\<rparr>"

text \<open>A gateway that reports an external address which is no dotted quad.\<close>

definition oddGateway :: upnpClient where
  "oddGateway = \<lparr>externalIp = Inr (Str ''2001:db8::5''), portMapping = (\<lambda>pub priv. None),
                  findGateway = Inr (Str ''192.168.1.10'')\<rparr>"

text \<open>An operator; the automatic mode never asks.\<close>

definition sampleOperator :: operator where
  "sampleOperator = \<lparr>answerIpv4 = Null, answerIpv6 = Null, answerPort = Str ''10901'',
      answerRemoteipv4 = Null, answerNewRemoteipv4 = Null, answerRemoteport = Str ''10901'',
      answerRemotehost = Null, keepUPnPBinding = True, isPublicServer = True,
      hasDNSName = False, useUPnPMapping = True\<rparr>"

text \<open>A host whose wireless interface is enumerated before its wired one, each with a
  global IPv6 address.\<close>

definition wirelessFirst :: netInterfaces where
  "wirelessFirst =
     [(''wlan0'', [\<lparr>address = ''2001:db8::1'', family = ''IPv6'', internal = False,
                     scopeid = Some 0\<rparr>]),
      (''eth0'', [\<lparr>address = ''2001:db8::2'', family = ''IPv6'', internal = False,
                    scopeid = Some 0\<rparr>])]"

text \<open>Two listeners, on the loopback addresses of both families, open and with
  connections in flight: two on the first, one on the second.\<close>

definition busyListeners :: "listener list" where
  "busyListeners =
     [\<lparr>ifaceIp = ''127.0.0.1'', ifacePort = Num 10400, listening = True, sockets = [0, 1],
       nextSocketId = 2, errorPropagates = True\<rparr>,
      \<lparr>ifaceIp = ''::1'', ifacePort = Num 10400, listening = True, sockets = [0],
       nextSocketId = 1, errorPropagates = True\<rparr>]"

text \<open>The same listeners before \<^verbatim>\<open>openConnections\<close>, on a host where the IPv6 loopback
  cannot be bound.\<close>

definition freshListeners :: "listener list" where
  "freshListeners =
     [\<lparr>ifaceIp = ''127.0.0.1'', ifacePort = Num 10400, listening = False, sockets = [],
       nextSocketId = 0, errorPropagates = False\<rparr>,
      \<lparr>ifaceIp = ''::1'', ifacePort = Num 10400, listening = False, sockets = [],
       nextSocketId = 0, errorPropagates = False\<rparr>]"


section \<open>The selection of the best local addresses as the specification words it\<close>



text \<open>An address qualifies when it is an IPv6 address that is not internal, has scope id
  zero, and whose text starts neither with \<^verbatim>\<open>fe80\<close> (link-local) nor with \<^verbatim>\<open>::1\<close>
  (loopback).\<close>

definition qualifying :: "netaddr \<Rightarrow> bool" where
  "qualifying a =
     (family a = ''IPv6'' \<and> \<not> internal a \<and> scopeid a = Some 0
      \<and> \<not> matchPrefix (lit ''fe80'') (address a) \<and> \<not> matchPrefix (lit ''::1'') (address a))"

text \<open>The qualifying addresses of a host, interface by interface, in the order of
  enumeration.\<close>

definition qualifyingAddresses :: "netInterfaces \<Rightarrow> netaddr list" where
  "qualifyingAddresses nis = concat (map (\<lambda>(nm, as). filter qualifying as) nis)"

text \<open>The specification's reading: among the qualifying addresses, the one the
  interface-name priority of the IPv4 selection ranks first, or nothing.\<close>

definition spec_bestLocalIPv6 :: "netInterfaces \<Rightarrow> jsval" where
  "spec_bestLocalIPv6 nis =
     (case sortBy (\<lambda>entry. priority (fst entry))
             (concat (map (\<lambda>(nm, as). map (\<lambda>a. (nm, address a)) (filter qualifying as)) nis)) of
        [] \<Rightarrow> Null
      | best # _ \<Rightarrow> Str (snd best))"

section \<open>Properties\<close>

lemma jsget_upd [simp]: "jsget (ob(k \<mapsto> v)) k' = (if k' = k then v else jsget ob k')"
  by (simp add: jsget_def)

lemma jsget_empty [simp]: "jsget Map.empty k = Undefined"
  by (simp add: jsget_def)

subsection \<open>Final validation\<close>

text \<open>
  C3. For every configuration reaching the final validation, each violated invariant has
  its own fatal error: with no truthy \<^verbatim>\<open>ipv4\<close> and no truthy \<^verbatim>\<open>ipv6\<close> the error is
  "No interface to listen to.", whatever the other fields hold; otherwise, with none of
  \<^verbatim>\<open>remoteipv4\<close>, \<^verbatim>\<open>remoteipv6\<close>, \<^verbatim>\<open>remotehost\<close> truthy, it is "No interface for remote
  contact."; otherwise, with no truthy \<^verbatim>\<open>remoteport\<close>, it is "No port for remote contact.";
  a configuration that satisfies the three invariants passes. The three errors differ.
  A field is absent when it is falsy: missing, \<^verbatim>\<open>null\<close>, the empty string or zero.
\<close>

theorem validation_errors:
  "(\<not> truthy (jsget conf ''ipv4'') \<and> \<not> truthy (jsget conf ''ipv6'')
      \<longrightarrow> configurationErrors conf = Some (Error ''No interface to listen to.''))
   \<and> ((truthy (jsget conf ''ipv4'') \<or> truthy (jsget conf ''ipv6''))
        \<and> \<not> truthy (jsget conf ''remoteipv4'') \<and> \<not> truthy (jsget conf ''remoteipv6'')
        \<and> \<not> truthy (jsget conf ''remotehost'')
      \<longrightarrow> configurationErrors conf = Some (Error ''No interface for remote contact.''))
   \<and> ((truthy (jsget conf ''ipv4'') \<or> truthy (jsget conf ''ipv6''))
        \<and> (truthy (jsget conf ''remoteipv4'') \<or> truthy (jsget conf ''remoteipv6'')
             \<or> truthy (jsget conf ''remotehost''))
        \<and> \<not> truthy (jsget conf ''remoteport'')
      \<longrightarrow> configurationErrors conf = Some (Error ''No port for remote contact.''))
   \<and> ((truthy (jsget conf ''ipv4'') \<or> truthy (jsget conf ''ipv6''))
        \<and> (truthy (jsget conf ''remoteipv4'') \<or> truthy (jsget conf ''remoteipv6'')
             \<or> truthy (jsget conf ''remotehost''))
        \<and> truthy (jsget conf ''remoteport'')
      \<longrightarrow> configurationErrors conf = None)
   \<and> Error ''No interface to listen to.'' \<noteq> Error ''No interface for remote contact.''
   \<and> Error ''No interface to listen to.'' \<noteq> Error ''No port for remote contact.''
   \<and> Error ''No interface for remote contact.'' \<noteq> Error ''No port for remote contact.''"
  by (simp add: configurationErrors_def)

theorem validation_errors_witness:
  "configurationErrors [''remoteipv4'' \<mapsto> Str ''203.0.113.5'', ''remoteport'' \<mapsto> Num 20900]
     = Some (Error ''No interface to listen to.'')
   \<and> configurationErrors [''ipv4'' \<mapsto> Str ''192.168.1.10'', ''remoteport'' \<mapsto> Num 20900]
     = Some (Error ''No interface for remote contact.'')
   \<and> configurationErrors [''ipv4'' \<mapsto> Str ''192.168.1.10'', ''remotehost'' \<mapsto> Str ''node.example.org'']
     = Some (Error ''No port for remote contact.'')
   \<and> configurationErrors [''ipv4'' \<mapsto> Str ''127.0.0.1'', ''port'' \<mapsto> Num 10400,
        ''remoteipv4'' \<mapsto> Str ''127.0.0.1'', ''remoteport'' \<mapsto> Num 10400] = None"
  using validation_errors [of "[''remoteipv4'' \<mapsto> Str ''203.0.113.5'', ''remoteport'' \<mapsto> Num 20900]"]
    validation_errors [of "[''ipv4'' \<mapsto> Str ''192.168.1.10'', ''remoteport'' \<mapsto> Num 20900]"]
    validation_errors [of "[''ipv4'' \<mapsto> Str ''192.168.1.10'', ''remotehost'' \<mapsto> Str ''node.example.org'']"]
    validation_errors [of "[''ipv4'' \<mapsto> Str ''127.0.0.1'', ''port'' \<mapsto> Num 10400,
        ''remoteipv4'' \<mapsto> Str ''127.0.0.1'', ''remoteport'' \<mapsto> Num 10400]"]
  by simp

subsection \<open>Rounding to a double\<close>

lemma roundTiesToEven_near: "\<bar>of_int (roundTiesToEven y) - y\<bar> \<le> 1 / 2"
proof -
  have "of_int \<lfloor>y\<rfloor> \<le> y" "y < of_int \<lfloor>y\<rfloor> + 1" by linarith+
  then show ?thesis by (auto simp: roundTiesToEven_def Let_def)
qed

lemma roundTiesToEven_nonneg: "0 \<le> y \<Longrightarrow> 0 \<le> roundTiesToEven y"
  by (simp add: roundTiesToEven_def Let_def)

lemma spacing_bound:
  assumes "0 < x"
  shows "(2::real) powr (of_int (max \<lfloor>log 2 x\<rfloor> minExponent) - 52)
           \<le> x * 2 powr (- 52) + 2 powr (of_int minExponent - 52)"
proof (cases "minExponent \<le> \<lfloor>log 2 x\<rfloor>")
  case True
  then have m: "max \<lfloor>log 2 x\<rfloor> minExponent = \<lfloor>log 2 x\<rfloor>" by simp
  have "of_int \<lfloor>log 2 x\<rfloor> - 52 \<le> log 2 x - 52" by simp
  then have "(2::real) powr (of_int \<lfloor>log 2 x\<rfloor> - 52) \<le> 2 powr (log 2 x - 52)"
    by (rule powr_mono) simp
  also have "(2::real) powr (log 2 x - 52) = 2 powr (log 2 x) * 2 powr (- 52)"
    using powr_add [of "2::real" "log 2 x" "- 52"] by simp
  also have "\<dots> = x * 2 powr (- 52)" using assms by simp
  finally have "(2::real) powr (of_int \<lfloor>log 2 x\<rfloor> - 52) \<le> x * 2 powr (- 52)" .
  moreover have "0 \<le> (2::real) powr (of_int minExponent - 52)" by (rule powr_ge_zero)
  ultimately show ?thesis unfolding m by linarith
next
  case False
  then have m: "max \<lfloor>log 2 x\<rfloor> minExponent = minExponent" by simp
  have "0 \<le> x * 2 powr (- 52)" using assms by (intro mult_nonneg_nonneg powr_ge_zero) simp
  then show ?thesis unfolding m by linarith
qed

lemma toDouble_near:
  assumes "0 \<le> x"
  shows "\<bar>toDouble x - x\<bar> \<le> (x * 2 powr (- 52) + 2 powr (of_int minExponent - 52)) / 2"
proof (cases "x = 0")
  case True
  have "0 \<le> (2::real) powr (of_int minExponent - 52)" by (rule powr_ge_zero)
  with True show ?thesis by (simp add: toDouble_def)
next
  case False
  with assms have pos: "0 < x" by simp
  define s :: real where "s = 2 powr (of_int (max \<lfloor>log 2 x\<rfloor> minExponent) - 52)"
  have spos: "0 < s" unfolding s_def by (rule powr_gt_zero[THEN iffD2]) simp
  have td: "toDouble x = s * of_int (roundTiesToEven (x / s))"
    using pos by (simp add: toDouble_def Let_def s_def)
  have "toDouble x - x = s * (of_int (roundTiesToEven (x / s)) - x / s)"
    using spos by (simp add: td right_diff_distrib)
  then have "\<bar>toDouble x - x\<bar> = s * \<bar>of_int (roundTiesToEven (x / s)) - x / s\<bar>"
    using spos by (simp add: abs_mult)
  also have "\<dots> \<le> s * (1 / 2)"
    using spos roundTiesToEven_near [of "x / s"] by (intro mult_left_mono) simp_all
  also have "\<dots> \<le> (x * 2 powr (- 52) + 2 powr (of_int minExponent - 52)) * (1 / 2)"
    using spacing_bound [OF pos] unfolding s_def by (intro mult_right_mono) simp_all
  finally show ?thesis by simp
qed

lemma toDouble_nonneg: "0 \<le> x \<Longrightarrow> 0 \<le> toDouble x"
  by (simp add: toDouble_def Let_def roundTiesToEven_nonneg)

lemma ulp_52: "(2::real) powr (- 52) = 2 * (1 / 2 ^ 53)"
proof -
  have "(2::real) powr (- 52) = 1 / 2 ^ 52"
    by (simp add: powr_minus_divide)
  then show ?thesis by simp
qed

lemma subnormal_step: "0 < (2::real) powr (of_int minExponent - 52)"
  "(2::real) powr (of_int minExponent - 52) \<le> (1 / 2 ^ 53) * (1 / 2 ^ 53)"
proof -
  show "0 < (2::real) powr (of_int minExponent - 52)" by simp
  have "of_int minExponent - 52 \<le> (- 106 :: real)" by (simp add: minExponent_def)
  then have "(2::real) powr (of_int minExponent - 52) \<le> 2 powr (- 106)"
    by (rule powr_mono) simp
  also have "(2::real) powr (- 106) = 1 / 2 ^ 106" by (simp add: powr_minus_divide)
  also have "\<dots> = (1 / 2 ^ 53) * (1 / 2 ^ 53)" by simp
  finally show "(2::real) powr (of_int minExponent - 52) \<le> (1 / 2 ^ 53) * (1 / 2 ^ 53)" .
qed

lemma toDouble_product_below:
  assumes "0 \<le> u" and "u \<le> 1 - 1 / 2 ^ 53" and "1 \<le> n"
  shows "0 \<le> toDouble (u * n) \<and> toDouble (u * n) < n"
proof -
  define h :: real where "h = 1 / 2 ^ 53"
  define c :: real where "c = 2 powr (of_int minExponent - 52)"
  have h: "0 < h" "h < 1" by (simp_all add: h_def)
  have c: "0 < c" "c \<le> h * h" using subnormal_step by (simp_all add: c_def h_def)
  have x0: "0 \<le> u * n" using assms by simp
  have "\<bar>toDouble (u * n) - u * n\<bar> \<le> (u * n * (2 * h) + c) / 2"
    using toDouble_near [OF x0] by (simp add: ulp_52 h_def c_def)
  also have "(u * n * (2 * h) + c) / 2 = u * n * h + c / 2" by (simp add: add_divide_distrib)
  finally have "toDouble (u * n) - u * n \<le> u * n * h + c / 2" by (simp add: abs_le_iff)
  moreover have "u * n * (1 + h) = u * n + u * n * h" by (simp add: distrib_left)
  ultimately have up: "toDouble (u * n) \<le> u * n * (1 + h) + c / 2"
    by linarith
  have un: "u * n \<le> (1 - h) * n"
    using assms by (intro mult_right_mono) (simp_all add: h_def)
  have "0 \<le> 1 + h" using h by simp
  with un have "u * n * (1 + h) \<le> (1 - h) * n * (1 + h)"
    by (rule mult_right_mono)
  also have "\<dots> = n - n * (h * h)" by (simp add: algebra_simps)
  also have "\<dots> \<le> n - 1 * (h * h)"
  proof -
    have "0 \<le> h * h" using h by simp
    with assms(3) have "1 * (h * h) \<le> n * (h * h)" by (rule mult_right_mono)
    then show ?thesis by linarith
  qed
  finally have "u * n * (1 + h) \<le> n - h * h" by simp
  moreover have "c / 2 < h * h" using c by linarith
  ultimately have "toDouble (u * n) < n" using up by linarith
  with toDouble_nonneg [OF x0] show ?thesis by simp
qed

lemma toDouble_floor:
  assumes "0 \<le> x" and "x \<le> 65536" and "of_int k + 1 / 4 \<le> x" and "x \<le> of_int k + 3 / 4"
  shows "\<lfloor>toDouble x\<rfloor> = k"
proof -
  define h :: real where "h = 1 / 2 ^ 53"
  define c :: real where "c = 2 powr (of_int minExponent - 52)"
  have h: "0 < h" "65536 * h \<le> 1 / 8" by (simp_all add: h_def)
  have "c \<le> h * h" using subnormal_step by (simp add: c_def h_def)
  also have "h * h \<le> 1 * h" using h(1) by (intro mult_right_mono) (simp_all add: h_def)
  finally have c: "c \<le> 1 / 8" using h by linarith
  have "x * h \<le> 65536 * h" using assms(2) h(1) by (intro mult_right_mono) simp_all
  then have xh: "x * h \<le> 1 / 8" using h(2) by linarith
  have "\<bar>toDouble x - x\<bar> \<le> (x * (2 * h) + c) / 2"
    using toDouble_near [OF assms(1)] by (simp add: ulp_52 h_def c_def)
  also have "(x * (2 * h) + c) / 2 = x * h + c / 2" by (simp add: add_divide_distrib)
  finally have "\<bar>toDouble x - x\<bar> \<le> x * h + c / 2" .
  then have "\<bar>toDouble x - x\<bar> < 1 / 4" using xh c by linarith
  then have "of_int k \<le> toDouble x" "toDouble x < of_int k + 1"
    using assms(3,4) by linarith+
  then show ?thesis by (simp add: floor_unique)
qed

lemma toInt32_small:
  assumes "0 \<le> x" "x < real_of_int n" "n \<le> 2 ^ 31"
  shows "0 \<le> toInt32 x \<and> toInt32 x < n \<and> toInt32 x = \<lfloor>x\<rfloor>"
proof -
  have lo: "0 \<le> \<lfloor>x\<rfloor>" using assms(1) by simp
  have hi: "\<lfloor>x\<rfloor> < n" using assms(2) by (simp add: floor_less_iff)
  have "\<lfloor>x\<rfloor> < 2 ^ 31" using hi assms(3) by linarith
  then have "\<lfloor>x\<rfloor> mod 2 ^ 32 = \<lfloor>x\<rfloor>" using lo by simp
  then show ?thesis
    using lo hi assms(1) \<open>\<lfloor>x\<rfloor> < 2 ^ 31\<close> by (simp add: toInt32_def Let_def)
qed

subsection \<open>The UPnP probe\<close>

lemma jsget_extend: "jsget (js_extend dst src) k = (if k \<in> dom src then jsget src k else jsget dst k)"
  by (auto simp: jsget_def js_extend_def map_add_def split: option.splits)

lemma upnpConf_Inr:
  assumes "upnpConf K noupnp client u = Inr pc"
  shows "\<exists>publicIP privateIP. externalIp client = Inr (Str publicIP)
     \<and> findGateway client = Inr (Str privateIP) \<and> \<not> truthy noupnp
     \<and> portMapping client (getRandomPort K Map.empty u) (getRandomPort K Map.empty u) = None
     \<and> pc = [''remoteipv4'' \<mapsto> (if IPV4_REGEXP K publicIP then Str publicIP else Null),
             ''remoteport'' \<mapsto> getRandomPort K Map.empty u,
             ''port'' \<mapsto> getRandomPort K Map.empty u,
             ''ipv4'' \<mapsto> (if IPV4_REGEXP K privateIP then Str privateIP else Null)]"
  using assms
  by (auto simp: upnpConf_def Let_def jsMatch_def split: if_splits sum.splits option.splits jsval.splits)

lemma upnpConf_success:
  assumes "\<not> truthy noupnp" "externalIp client = Inr (Str publicIP)"
    "portMapping client (getRandomPort K Map.empty u) (getRandomPort K Map.empty u) = None"
    "findGateway client = Inr (Str privateIP)"
  shows "upnpConf K noupnp client u = Inr
            [''remoteipv4'' \<mapsto> (if IPV4_REGEXP K publicIP then Str publicIP else Null),
             ''remoteport'' \<mapsto> getRandomPort K Map.empty u,
             ''port'' \<mapsto> getRandomPort K Map.empty u,
             ''ipv4'' \<mapsto> (if IPV4_REGEXP K privateIP then Str privateIP else Null)]"
  using assms by (simp add: upnpConf_def Let_def jsMatch_def)

lemmas operations_defs = getLocalNetworkOperations_def getRemoteNetworkOperations_def
  getHostnameOperations_def getUseUPnPOperations_def mirrorLocal_def

lemma sample_octets:
  "dottedQuad ''203.0.113.5''" "dottedQuad ''192.168.1.10''" "\<not> dottedQuad ''2001:db8::5''"
  by (simp_all add: dottedQuad_def octet_def digitsValue_def isDigit_def)

lemma sample_port: "getRandomPort sampleConstants Map.empty (122429 / 1048576) = Num 20900"
proof -
  define x :: real where "x = 122429 / 1048576 * 50536"
  have fl: "\<lfloor>toDouble x\<rfloor> = 5900"
    by (rule toDouble_floor) (simp_all add: x_def)
  from floor_correct [of "toDouble x"] have "0 \<le> toDouble x" "toDouble x < real_of_int 5901"
    unfolding fl by simp_all
  from toInt32_small [OF this] have "toInt32 (toDouble x) = 5900"
    using fl by simp
  moreover have "getRandomPort sampleConstants Map.empty (122429 / 1048576)
      = Num (toInt32 (toDouble x) + 15000)"
    by (simp add: getRandomPort_def sampleConstants_def x_def)
  ultimately show ?thesis by simp
qed

lemma sample_best6: "getBestLocalIPv6 sampleInterfaces = Str ''2001:db8::10''"
  by (simp add: getBestLocalIPv6_def listInterfaces_def sampleInterfaces_def whereIPv6_def
      notLinkLocalNorLoopback_def lit_def)

lemma sample_best4: "getBestLocalIPv4 sampleInterfaces = ''192.168.1.10''"
  by (simp add: getBestLocalIPv4_def getBestLocal_def candidates_def sampleInterfaces_def
      sortBy_def priority_def interfacePriorityRegCatcher_def lit_def isDigit_def)

lemma noGateway_fails: "upnpConf K noupnp noGateway u = Inl (if truthy noupnp then Error ''No UPnP'' else Error ''timeout'')"
  by (simp add: upnpConf_def noGateway_def Let_def)

text \<open>
  C10. When the probe itself succeeds (the gateway answers the three requests with
  strings), \<^verbatim>\<open>upnpConf\<close> sets \<^verbatim>\<open>remoteipv4\<close> to the external address the gateway reports
  only if that string matches \<^verbatim>\<open>IPV4_REGEXP\<close>, and to \<^verbatim>\<open>null\<close> otherwise; likewise \<^verbatim>\<open>ipv4\<close>
  from the local address the gateway discovery gives. Both ports are the probed port. So a
  successful probe can return a configuration with no remote IPv4, and no error is raised.
\<close>

theorem upnpConf_pattern_gate:
  assumes "\<not> truthy noupnp" and "externalIp client = Inr (Str publicIP)"
    and "portMapping client (getRandomPort K Map.empty u) (getRandomPort K Map.empty u) = None"
    and "findGateway client = Inr (Str privateIP)"
  shows "\<exists>conf. upnpConf K noupnp client u = Inr conf
     \<and> jsget conf ''remoteipv4'' = (if IPV4_REGEXP K publicIP then Str publicIP else Null)
     \<and> jsget conf ''ipv4'' = (if IPV4_REGEXP K privateIP then Str privateIP else Null)
     \<and> jsget conf ''remoteport'' = getRandomPort K Map.empty u
     \<and> jsget conf ''port'' = getRandomPort K Map.empty u"
  by (simp add: upnpConf_success [OF assms])

theorem upnpConf_pattern_gate_witness:
  "\<exists>conf. upnpConf sampleConstants Undefined oddGateway (122429 / 1048576) = Inr conf
     \<and> jsget conf ''remoteipv4'' = Null
     \<and> jsget conf ''ipv4'' = Str ''192.168.1.10''
     \<and> jsget conf ''remoteport'' = Num 20900
     \<and> jsget conf ''port'' = Num 20900"
  using upnpConf_pattern_gate [of Undefined oddGateway "''2001:db8::5''" sampleConstants
      "122429 / 1048576" "''192.168.1.10''"] sample_octets sample_port
  by (simp add: oddGateway_def sampleConstants_def)

subsection \<open>Random ports\<close>

lemma drawn_port_range:
  assumes "0 \<le> u" "u \<le> 1 - 1 / 2 ^ 53" "0 \<le> PORT_START K" "PORT_START K \<le> 65535"
  shows "\<exists>p. getRandomPort K Map.empty u = Num p \<and> PORT_START K \<le> p \<and> p \<le> 65535"
proof -
  let ?n = "65536 - PORT_START K"
  let ?x = "toDouble (u * real_of_int ?n)"
  have n1: "1 \<le> real_of_int ?n" using assms(4) by simp
  from toDouble_product_below [OF assms(1,2) n1]
  have ge: "0 \<le> ?x" and lt: "?x < real_of_int ?n" by blast+
  have "?n \<le> 2 ^ 31" using assms(3) by simp
  from toInt32_small [OF ge lt this]
  have "0 \<le> toInt32 ?x" and "toInt32 ?x < ?n"
    by blast+
  then have "PORT_START K \<le> toInt32 ?x + PORT_START K"
    and "toInt32 ?x + PORT_START K \<le> 65535"
    by linarith+
  then show ?thesis unfolding getRandomPort_def by simp
qed

lemma probe_failed_port:
  assumes "upnpConf K noupnp (upnpGateway env) (mathRandom env 0) = Inl err"
  shows "\<exists>c. networkReconfiguration K env opr conf True noupnp = Inr c
     \<and> jsget c ''port'' =
         (if truthy (js_or (jsget conf ''remoteport'') (DEFAULT_PORT K))
          then js_or (jsget conf ''remoteport'') (DEFAULT_PORT K)
          else getRandomPort K Map.empty (mathRandom env 1))"
proof -
  have probe: "upnpResolve K env noupnp = (None, False, Map.empty)"
    using assms by (simp add: upnpResolve_def)
  show ?thesis
    by (simp add: networkReconfiguration_def probe Let_def operations_defs getRandomPort_def)
qed

lemma probe_succeeded_port:
  assumes "upnpConf K noupnp (upnpGateway env) (mathRandom env 0) = Inr pc"
  shows "\<exists>c. networkReconfiguration K env opr conf True noupnp = Inr c
     \<and> jsget c ''port'' = getRandomPort K Map.empty (mathRandom env 0)
     \<and> jsget c ''remoteport'' = getRandomPort K Map.empty (mathRandom env 0)"
proof -
  have r: "upnpResolve K env noupnp = (None, True, pc)"
    by (simp add: upnpResolve_def assms)
  from upnpConf_Inr [OF assms] obtain a b where
    pc: "pc = [''remoteipv4'' \<mapsto> a, ''remoteport'' \<mapsto> getRandomPort K Map.empty (mathRandom env 0),
               ''port'' \<mapsto> getRandomPort K Map.empty (mathRandom env 0), ''ipv4'' \<mapsto> b]"
    by blast
  show ?thesis
    by (simp add: networkReconfiguration_def r Let_def operations_defs jsget_extend pc)
qed

lemma isolated_port:
  "(case networkReconfiguration sampleConstants isolatedEnv sampleOperator Map.empty True Undefined of
      Inl e \<Rightarrow> Undefined | Inr c \<Rightarrow> jsget c ''port'') = Num 10901"
proof -
  have "upnpConf sampleConstants Undefined (upnpGateway isolatedEnv) (mathRandom isolatedEnv 0)
          = Inl (Error ''timeout'')"
    using noGateway_fails [of sampleConstants Undefined "mathRandom isolatedEnv 0"]
    by (simp add: isolatedEnv_def)
  from probe_failed_port [OF this, of sampleOperator Map.empty]
  show ?thesis by (auto simp: js_or_def sampleConstants_def)
qed

text \<open>
  C8, as the code has it. \<^verbatim>\<open>getRandomPort\<close> returns the remote port already known whenever
  one is set (truthy), and draws nothing then; otherwise, for a double of \<^verbatim>\<open>Math.random()\<close>
  in \<open>[0, 1)\<close> and a floor \<^verbatim>\<open>PORT_START\<close> that is a port number, the port drawn lies in
  \<open>[PORT_START, 65535]\<close>. In the automatic mode, when the UPnP probe succeeds the local
  port and the remote port are the port drawn for the probe (the first draw, in that
  range): it is not drawn again. When the probe fails, \<^verbatim>\<open>networkReconfiguration\<close> has
  defaulted \<^verbatim>\<open>remoteport\<close> to \<^verbatim>\<open>DEFAULT_PORT\<close> before the local port is chosen, so the local
  port is \<^verbatim>\<open>conf.remoteport || DEFAULT_PORT\<close> whenever that is truthy, whatever the range,
  and a second draw, in the range, only when it is not.
\<close>

theorem autoconf_port_selection:
  "(truthy (jsget conf ''remoteport'') \<longrightarrow> getRandomPort K conf u = jsget conf ''remoteport'')
   \<and> (\<not> truthy (jsget conf ''remoteport'') \<and> 0 \<le> u \<and> u \<le> 1 - 1 / 2 ^ 53
        \<and> 0 \<le> PORT_START K \<and> PORT_START K \<le> 65535
      \<longrightarrow> (\<exists>p. getRandomPort K conf u = Num p \<and> PORT_START K \<le> p \<and> p \<le> 65535))
   \<and> (\<forall>pc. upnpConf K noupnp (upnpGateway env) (mathRandom env 0) = Inr pc
      \<longrightarrow> jsget pc ''port'' = getRandomPort K Map.empty (mathRandom env 0)
        \<and> (\<exists>c. networkReconfiguration K env opr conf True noupnp = Inr c
              \<and> jsget c ''port'' = jsget pc ''port''
              \<and> jsget c ''remoteport'' = jsget pc ''port''
              \<and> (0 \<le> mathRandom env 0 \<and> mathRandom env 0 \<le> 1 - 1 / 2 ^ 53
                    \<and> 0 \<le> PORT_START K \<and> PORT_START K \<le> 65535
                  \<longrightarrow> (\<exists>p. jsget c ''port'' = Num p \<and> PORT_START K \<le> p \<and> p \<le> 65535))))
   \<and> (\<forall>err. upnpConf K noupnp (upnpGateway env) (mathRandom env 0) = Inl err
      \<longrightarrow> (\<exists>c. networkReconfiguration K env opr conf True noupnp = Inr c
              \<and> jsget c ''port'' =
                  (if truthy (js_or (jsget conf ''remoteport'') (DEFAULT_PORT K))
                   then js_or (jsget conf ''remoteport'') (DEFAULT_PORT K)
                   else getRandomPort K Map.empty (mathRandom env 1))))"
proof (intro conjI impI allI)
  assume "truthy (jsget conf ''remoteport'')"
  then show "getRandomPort K conf u = jsget conf ''remoteport''"
    by (simp add: getRandomPort_def)
next
  assume a: "\<not> truthy (jsget conf ''remoteport'') \<and> 0 \<le> u \<and> u \<le> 1 - 1 / 2 ^ 53
        \<and> 0 \<le> PORT_START K \<and> PORT_START K \<le> 65535"
  then have "getRandomPort K conf u = getRandomPort K Map.empty u"
    by (simp add: getRandomPort_def)
  moreover from a have "\<exists>p. getRandomPort K Map.empty u = Num p \<and> PORT_START K \<le> p \<and> p \<le> 65535"
    by (intro drawn_port_range) blast+
  ultimately show "\<exists>p. getRandomPort K conf u = Num p \<and> PORT_START K \<le> p \<and> p \<le> 65535"
    by simp
next
  fix pc assume p: "upnpConf K noupnp (upnpGateway env) (mathRandom env 0) = Inr pc"
  from upnpConf_Inr [OF p] show "jsget pc ''port'' = getRandomPort K Map.empty (mathRandom env 0)"
    by auto
next
  fix pc assume p: "upnpConf K noupnp (upnpGateway env) (mathRandom env 0) = Inr pc"
  from upnpConf_Inr [OF p] have pp: "jsget pc ''port'' = getRandomPort K Map.empty (mathRandom env 0)"
    by auto
  from probe_succeeded_port [OF p, of opr conf] obtain c where
    c: "networkReconfiguration K env opr conf True noupnp = Inr c"
      "jsget c ''port'' = getRandomPort K Map.empty (mathRandom env 0)"
      "jsget c ''remoteport'' = getRandomPort K Map.empty (mathRandom env 0)"
    by blast
  have "0 \<le> mathRandom env 0 \<and> mathRandom env 0 \<le> 1 - 1 / 2 ^ 53
          \<and> 0 \<le> PORT_START K \<and> PORT_START K \<le> 65535
        \<longrightarrow> (\<exists>p. jsget c ''port'' = Num p \<and> PORT_START K \<le> p \<and> p \<le> 65535)"
    unfolding c(2) by (intro impI drawn_port_range) blast+
  with c pp show "\<exists>c. networkReconfiguration K env opr conf True noupnp = Inr c
              \<and> jsget c ''port'' = jsget pc ''port''
              \<and> jsget c ''remoteport'' = jsget pc ''port''
              \<and> (0 \<le> mathRandom env 0 \<and> mathRandom env 0 \<le> 1 - 1 / 2 ^ 53
                    \<and> 0 \<le> PORT_START K \<and> PORT_START K \<le> 65535
                  \<longrightarrow> (\<exists>p. jsget c ''port'' = Num p \<and> PORT_START K \<le> p \<and> p \<le> 65535))"
    by simp
next
  fix err assume "upnpConf K noupnp (upnpGateway env) (mathRandom env 0) = Inl err"
  then show "\<exists>c. networkReconfiguration K env opr conf True noupnp = Inr c
              \<and> jsget c ''port'' =
                  (if truthy (js_or (jsget conf ''remoteport'') (DEFAULT_PORT K))
                   then js_or (jsget conf ''remoteport'') (DEFAULT_PORT K)
                   else getRandomPort K Map.empty (mathRandom env 1))"
    by (rule probe_failed_port)
qed

theorem autoconf_port_selection_witness:
  "getRandomPort sampleConstants [''remoteport'' \<mapsto> Num 10901] (122429 / 1048576) = Num 10901
   \<and> (\<exists>p. getRandomPort sampleConstants Map.empty (122429 / 1048576) = Num p \<and> 15000 \<le> p \<and> p \<le> 65535)
   \<and> (\<exists>c. networkReconfiguration sampleConstants sampleEnv sampleOperator Map.empty True Undefined = Inr c
          \<and> jsget c ''port'' = Num 20900 \<and> jsget c ''remoteport'' = Num 20900)
   \<and> (\<exists>c. networkReconfiguration sampleConstants isolatedEnv sampleOperator Map.empty True Undefined = Inr c
          \<and> jsget c ''port'' = Num 10901)"
proof -
  let ?u = "122429 / 1048576 :: real"
  have ok: "upnpConf sampleConstants Undefined (upnpGateway sampleEnv) (mathRandom sampleEnv 0)
      = Inr [''remoteipv4'' \<mapsto> Str ''203.0.113.5'', ''remoteport'' \<mapsto> Num 20900,
             ''port'' \<mapsto> Num 20900, ''ipv4'' \<mapsto> Str ''192.168.1.10'']"
    using upnpConf_success [of Undefined sampleGateway "''203.0.113.5''" sampleConstants ?u
        "''192.168.1.10''"] sample_octets sample_port
    by (simp add: sampleEnv_def sampleGateway_def sampleConstants_def)
  have ko: "upnpConf sampleConstants Undefined (upnpGateway isolatedEnv) (mathRandom isolatedEnv 0)
      = Inl (Error ''timeout'')"
    using noGateway_fails [of sampleConstants Undefined ?u] by (simp add: isolatedEnv_def)
  have a: "getRandomPort sampleConstants [''remoteport'' \<mapsto> Num 10901] ?u = Num 10901"
    using autoconf_port_selection [of "[''remoteport'' \<mapsto> Num 10901]" sampleConstants ?u]
    by simp
  have "\<not> truthy (jsget Map.empty ''remoteport'') \<and> 0 \<le> ?u \<and> ?u \<le> 1 - 1 / 2 ^ 53
        \<and> 0 \<le> PORT_START sampleConstants \<and> PORT_START sampleConstants \<le> 65535"
    by (simp add: sampleConstants_def)
  with autoconf_port_selection [of Map.empty sampleConstants ?u]
  have b: "\<exists>p. getRandomPort sampleConstants Map.empty ?u = Num p
             \<and> PORT_START sampleConstants \<le> p \<and> p \<le> 65535"
    by blast
  from autoconf_port_selection [of Map.empty sampleConstants ?u Undefined sampleEnv sampleOperator] ok
  have c: "\<exists>c. networkReconfiguration sampleConstants sampleEnv sampleOperator Map.empty True Undefined
              = Inr c \<and> jsget c ''port'' = Num 20900 \<and> jsget c ''remoteport'' = Num 20900"
    by auto
  from autoconf_port_selection [of Map.empty sampleConstants ?u Undefined isolatedEnv sampleOperator] ko
  have d: "\<exists>c. networkReconfiguration sampleConstants isolatedEnv sampleOperator Map.empty True Undefined
              = Inr c \<and> jsget c ''port'' = Num 10901"
    by (auto simp: js_or_def sampleConstants_def)
  from a b c d show ?thesis by (simp add: sampleConstants_def)
qed

text \<open>
  C8, as the claim states it, fails: in the automatic mode, on a host with no gateway in
  reach and no remote port on record, the local port chosen is the default port 10901,
  which is not drawn and lies below the floor 15000 of the range.
\<close>

theorem autoconf_port_below_floor:
  "(case networkReconfiguration sampleConstants isolatedEnv sampleOperator Map.empty True Undefined of
      Inl e \<Rightarrow> Undefined | Inr c \<Rightarrow> jsget c ''port'') = Num 10901
   \<and> PORT_START sampleConstants = 15000"
  using isolated_port by (simp add: sampleConstants_def)

subsection \<open>Automatic resolution\<close>

text \<open>
  C1. In an automatic resolution whose UPnP probe succeeds, with an external address that
  is an IPv4, the resulting configuration takes the probed values as they are:
  \<^verbatim>\<open>remoteipv4\<close> is the external address of the probe, \<^verbatim>\<open>remoteport\<close> (and \<^verbatim>\<open>port\<close>) the
  probed port, \<^verbatim>\<open>upnp\<close> is true exactly when the probe gave a local IPv4 (a non-empty
  string that matches the pattern), and \<^verbatim>\<open>ipv6\<close> and \<^verbatim>\<open>remoteipv6\<close> are both the best local
  IPv6, which may be \<^verbatim>\<open>null\<close>.
\<close>

theorem autoconf_upnp_available:
  assumes "\<not> truthy noupnp"
    and "externalIp (upnpGateway env) = Inr (Str publicIP)"
    and "IPV4_REGEXP K publicIP"
    and "portMapping (upnpGateway env) (getRandomPort K Map.empty (mathRandom env 0))
           (getRandomPort K Map.empty (mathRandom env 0)) = None"
    and "findGateway (upnpGateway env) = Inr (Str privateIP)"
  shows "\<exists>conf. networkReconfiguration K env opr conf0 True noupnp = Inr conf
     \<and> jsget conf ''remoteipv4'' = Str publicIP
     \<and> jsget conf ''remoteport'' = getRandomPort K Map.empty (mathRandom env 0)
     \<and> jsget conf ''port'' = getRandomPort K Map.empty (mathRandom env 0)
     \<and> jsget conf ''upnp'' = JBool (IPV4_REGEXP K privateIP \<and> privateIP \<noteq> [])
     \<and> jsget conf ''ipv6'' = getBestLocalIPv6 (osInterfaces env)
     \<and> jsget conf ''remoteipv6'' = getBestLocalIPv6 (osInterfaces env)"
proof -
  have probe: "upnpResolve K env noupnp = (None, True,
            [''remoteipv4'' \<mapsto> Str publicIP,
             ''remoteport'' \<mapsto> getRandomPort K Map.empty (mathRandom env 0),
             ''port'' \<mapsto> getRandomPort K Map.empty (mathRandom env 0),
             ''ipv4'' \<mapsto> (if IPV4_REGEXP K privateIP then Str privateIP else Null)])"
    using assms(3) by (simp add: upnpResolve_def upnpConf_success [OF assms(1,2,4,5)])
  show ?thesis
    by (simp add: networkReconfiguration_def probe Let_def operations_defs jsget_extend)
qed

theorem autoconf_upnp_available_witness:
  "\<exists>conf. networkReconfiguration sampleConstants sampleEnv sampleOperator Map.empty True Undefined
        = Inr conf
     \<and> jsget conf ''remoteipv4'' = Str ''203.0.113.5''
     \<and> jsget conf ''remoteport'' = Num 20900
     \<and> jsget conf ''port'' = Num 20900
     \<and> jsget conf ''upnp'' = JBool True
     \<and> jsget conf ''ipv6'' = Str ''2001:db8::10''
     \<and> jsget conf ''remoteipv6'' = Str ''2001:db8::10''"
  using autoconf_upnp_available [of Undefined sampleEnv "''203.0.113.5''" sampleConstants
      "''192.168.1.10''" sampleOperator Map.empty] sample_octets sample_port sample_best6
  by (simp add: sampleEnv_def sampleGateway_def sampleConstants_def)

text \<open>
  C2. In an automatic resolution whose UPnP probe fails, the resulting configuration
  mirrors local into remote: \<^verbatim>\<open>remoteipv4\<close> is \<^verbatim>\<open>ipv4\<close>, \<^verbatim>\<open>remoteipv6\<close> is \<^verbatim>\<open>ipv6\<close>,
  \<^verbatim>\<open>remoteport\<close> is \<^verbatim>\<open>port\<close>, and \<^verbatim>\<open>upnp\<close> is false. The local values are the best local
  IPv4 and IPv6 and the port \<^verbatim>\<open>getRandomPort\<close> gives.
\<close>

theorem autoconf_upnp_unavailable:
  assumes "upnpConf K noupnp (upnpGateway env) (mathRandom env 0) = Inl err"
  shows "\<exists>conf. networkReconfiguration K env opr conf0 True noupnp = Inr conf
     \<and> jsget conf ''remoteipv4'' = jsget conf ''ipv4''
     \<and> jsget conf ''remoteipv6'' = jsget conf ''ipv6''
     \<and> jsget conf ''remoteport'' = jsget conf ''port''
     \<and> jsget conf ''upnp'' = JBool False
     \<and> jsget conf ''ipv4'' = Str (getBestLocalIPv4 (osInterfaces env))
     \<and> jsget conf ''ipv6'' = getBestLocalIPv6 (osInterfaces env)
     \<and> jsget conf ''port'' =
           getRandomPort K [''remoteport'' \<mapsto> js_or (jsget conf0 ''remoteport'') (DEFAULT_PORT K)]
             (mathRandom env 1)"
proof -
  have probe: "upnpResolve K env noupnp = (None, False, Map.empty)"
    using assms by (simp add: upnpResolve_def)
  show ?thesis
    by (simp add: networkReconfiguration_def probe Let_def operations_defs getRandomPort_def)
qed

theorem autoconf_upnp_unavailable_witness:
  "\<exists>conf. networkReconfiguration sampleConstants isolatedEnv sampleOperator Map.empty True Undefined
        = Inr conf
     \<and> jsget conf ''remoteipv4'' = jsget conf ''ipv4''
     \<and> jsget conf ''remoteipv6'' = jsget conf ''ipv6''
     \<and> jsget conf ''remoteport'' = jsget conf ''port''
     \<and> jsget conf ''upnp'' = JBool False
     \<and> jsget conf ''ipv4'' = Str ''192.168.1.10''
     \<and> jsget conf ''ipv6'' = Str ''2001:db8::10''
     \<and> jsget conf ''port'' = Num 10901"
  using autoconf_upnp_unavailable [of sampleConstants Undefined isolatedEnv "Error ''timeout''"
      sampleOperator Map.empty]
    noGateway_fails [of sampleConstants Undefined "mathRandom isolatedEnv 0"]
    sample_best4 sample_best6
  by (simp add: isolatedEnv_def getRandomPort_def js_or_def sampleConstants_def)

subsection \<open>Failure of the probe\<close>

lemma upnpResolve_no_error: "fst (upnpResolve K env noupnp) = None"
  by (simp add: upnpResolve_def split: sum.splits)

lemma networkReconfiguration_Inr:
  "\<exists>conf. networkReconfiguration K env opr conf0 autoconf noupnp = Inr conf"
  by (simp add: networkReconfiguration_def Let_def split: prod.splits option.splits)
    (metis upnpResolve_no_error fst_conv option.distinct(1))

lemma beforeValidation_Inr: "\<exists>conf. beforeValidation K env opr conf0 program = Inr conf"
proof -
  let ?c = "defaultRemote (defaultRemote (defaultRemote
     (override (override (override (override (override (override (override conf0
        ''port'' (jsget program ''port'')) ''ipv4'' (jsget program ''ipv4''))
        ''ipv6'' (jsget program ''ipv6'')) ''remotehost'' (jsget program ''remoteh''))
        ''remoteipv4'' (jsget program ''remote4'')) ''remoteipv6'' (jsget program ''remote6''))
        ''remoteport'' (jsget program ''remotep''))
     ''remoteipv4'' ''ipv4'') ''remoteipv6'' ''ipv6'') ''remoteport'' ''port''"
  obtain c where "networkReconfiguration K env opr ?c True (jsget program ''noupnp'') = Inr c"
    using networkReconfiguration_Inr by blast
  then show ?thesis
    by (simp add: beforeValidation_def Let_def)
qed

lemma upnp_unavailable_branch:
  assumes "upnpConf K noupnp (upnpGateway env) (mathRandom env 0) = Inl err"
  shows "\<exists>conf. networkReconfiguration K env opr conf0 autoconf noupnp = Inr conf
           \<and> jsget conf ''upnp'' = JBool False"
proof -
  have probe: "upnpResolve K env noupnp = (None, False, Map.empty)"
    using assms by (simp add: upnpResolve_def)
  show ?thesis
    by (simp add: networkReconfiguration_def probe Let_def operations_defs)
qed

lemma offline_onLoading:
  "onLoading sampleConstants offlineEnv sampleOperator Map.empty Map.empty
     = Inl (Error ''No interface to listen to.'')"
  by (simp add: onLoading_def beforeValidation_def Let_def override_def defaultRemote_def
      networkReconfiguration_def upnpResolve_def offlineEnv_def noGateway_fails operations_defs
      getBestLocalIPv4_def getBestLocal_def candidates_def sortBy_def getBestLocalIPv6_def
      listInterfaces_def configurationErrors_def js_or_def sampleConstants_def getRandomPort_def)

text \<open>
  C9. A failure of the UPnP probe is never fatal. \<^verbatim>\<open>upnpResolve\<close> never gives an error to
  its callback; when the probe throws, it reports no success and an empty probed
  configuration, and the resolver then takes the branch without UPnP (it ends, in either
  mode, with \<^verbatim>\<open>upnp\<close> false). An error of \<^verbatim>\<open>onLoading\<close> can only be the one of the final
  validation.
\<close>

theorem probe_failure_not_fatal:
  "fst (upnpResolve K env noupnp) = None
   \<and> (\<forall>err. upnpConf K noupnp (upnpGateway env) (mathRandom env 0) = Inl err
        \<longrightarrow> upnpResolve K env noupnp = (None, False, Map.empty)
          \<and> (\<exists>conf. networkReconfiguration K env opr conf0 autoconf noupnp = Inr conf
                \<and> jsget conf ''upnp'' = JBool False))
   \<and> (\<forall>err. onLoading K env opr conf0 program = Inl err
        \<longrightarrow> (\<exists>conf. beforeValidation K env opr conf0 program = Inr conf
               \<and> configurationErrors conf = Some err))"
proof (intro conjI allI impI)
  show "fst (upnpResolve K env noupnp) = None" by (rule upnpResolve_no_error)
next
  fix err assume "upnpConf K noupnp (upnpGateway env) (mathRandom env 0) = Inl err"
  then show "upnpResolve K env noupnp = (None, False, Map.empty)"
    by (simp add: upnpResolve_def)
next
  fix err assume "upnpConf K noupnp (upnpGateway env) (mathRandom env 0) = Inl err"
  then show "\<exists>conf. networkReconfiguration K env opr conf0 autoconf noupnp = Inr conf
                \<and> jsget conf ''upnp'' = JBool False"
    by (rule upnp_unavailable_branch)
next
  fix err assume e: "onLoading K env opr conf0 program = Inl err"
  obtain conf where c: "beforeValidation K env opr conf0 program = Inr conf"
    using beforeValidation_Inr by blast
  with e have "configurationErrors conf = Some err"
    by (simp add: onLoading_def split: option.splits)
  with c show "\<exists>conf. beforeValidation K env opr conf0 program = Inr conf
               \<and> configurationErrors conf = Some err"
    by blast
qed

theorem probe_failure_not_fatal_witness:
  "upnpResolve sampleConstants offlineEnv Undefined = (None, False, Map.empty)
   \<and> (\<exists>conf. networkReconfiguration sampleConstants offlineEnv sampleOperator Map.empty True Undefined
          = Inr conf \<and> jsget conf ''upnp'' = JBool False)
   \<and> (\<exists>conf. beforeValidation sampleConstants offlineEnv sampleOperator Map.empty Map.empty = Inr conf
          \<and> configurationErrors conf = Some (Error ''No interface to listen to.''))"
  using probe_failure_not_fatal [of sampleConstants offlineEnv Undefined sampleOperator
      Map.empty True Map.empty]
    noGateway_fails [of sampleConstants Undefined "mathRandom offlineEnv 0"] offline_onLoading
  by (simp add: offlineEnv_def)

subsection \<open>Best local addresses\<close>


lemma priority_values:
  "priority ''tun0'' = 0" "priority ''enp3s0'' = 1" "priority ''eth0'' = 3"
  "priority ''Ethernet'' = 4" "priority ''wlp2s0'' = 5" "priority ''wlan0'' = 6"
  "priority ''Wi-Fi'' = 7" "priority ''lo'' = 8" "priority ''Loopback Pseudo-Interface 1'' = 9"
  "priority ''None'' = 10" "priority ''docker0'' = 11"
  by (simp_all add: priority_def interfacePriorityRegCatcher_def lit_def isDigit_def)














lemma filtered2_qualifying:
  "filter notLinkLocalNorLoopback (whereIPv6 as) = filter qualifying as"
  by (auto simp: whereIPv6_def notLinkLocalNorLoopback_def qualifying_def intro: filter_cong)

lemma firstGlobalIPv6_qualifying:
  "getBestLocalIPv6 nis = (case qualifyingAddresses nis of [] \<Rightarrow> Null | a # _ \<Rightarrow> Str (address a))"
proof (induction nis)
  case Nil
  show ?case by (simp add: getBestLocalIPv6_def listInterfaces_def qualifyingAddresses_def)
next
  case (Cons ni nis)
  obtain nm as where ni: "ni = (nm, as)" by (cases ni)
  show ?case
  proof (cases "filter qualifying as")
    case Nil
    with Cons.IH show ?thesis
      by (simp add: getBestLocalIPv6_def listInterfaces_def qualifyingAddresses_def ni
          filtered2_qualifying)
  next
    case (Cons a rest)
    then show ?thesis
      by (simp add: getBestLocalIPv6_def listInterfaces_def qualifyingAddresses_def ni
          filtered2_qualifying)
  qed
qed

lemma set_qualifyingAddresses:
  "set (qualifyingAddresses nis) = {a. \<exists>nm as. (nm, as) \<in> set nis \<and> a \<in> set as \<and> qualifying a}"
  by (auto simp: qualifyingAddresses_def)

text \<open>
  C7, as the code has it. The best local IPv6 is the first qualifying address in the order
  of enumeration (interface by interface, then address by address), and \<^verbatim>\<open>null\<close> when no
  address qualifies; an address qualifies when it is IPv6, not internal, of scope id zero,
  and its text starts neither with \<^verbatim>\<open>fe80\<close> nor with \<^verbatim>\<open>::1\<close>. The interface-name
  priority of the IPv4 selection plays no part.
\<close>

theorem best_local_ipv6_first_qualifying:
  "getBestLocalIPv6 nis = (case qualifyingAddresses nis of [] \<Rightarrow> Null | a # _ \<Rightarrow> Str (address a))
   \<and> (getBestLocalIPv6 nis = Null \<longleftrightarrow> (\<forall>(nm, as)\<in>set nis. \<forall>a\<in>set as. \<not> qualifying a))
   \<and> (\<forall>x. getBestLocalIPv6 nis = Str x \<longrightarrow>
         (\<exists>nm as a. (nm, as) \<in> set nis \<and> a \<in> set as \<and> qualifying a \<and> address a = x))"
proof (intro conjI allI impI)
  show "getBestLocalIPv6 nis = (case qualifyingAddresses nis of [] \<Rightarrow> Null | a # _ \<Rightarrow> Str (address a))"
    by (rule firstGlobalIPv6_qualifying)
next
  have "getBestLocalIPv6 nis = Null \<longleftrightarrow> qualifyingAddresses nis = []"
    by (simp add: firstGlobalIPv6_qualifying split: list.splits)
  also have "\<dots> \<longleftrightarrow> set (qualifyingAddresses nis) = {}" by simp
  also have "\<dots> \<longleftrightarrow> (\<forall>(nm, as)\<in>set nis. \<forall>a\<in>set as. \<not> qualifying a)"
    unfolding set_qualifyingAddresses by auto
  finally show "getBestLocalIPv6 nis = Null \<longleftrightarrow> (\<forall>(nm, as)\<in>set nis. \<forall>a\<in>set as. \<not> qualifying a)" .
next
  fix x assume "getBestLocalIPv6 nis = Str x"
  then obtain a rest where q: "qualifyingAddresses nis = a # rest" and x: "address a = x"
    by (auto simp: firstGlobalIPv6_qualifying split: list.splits)
  then have "a \<in> set (qualifyingAddresses nis)" by simp
  with x show "\<exists>nm as a. (nm, as) \<in> set nis \<and> a \<in> set as \<and> qualifying a \<and> address a = x"
    unfolding set_qualifyingAddresses by blast
qed

theorem best_local_ipv6_first_qualifying_witness:
  "getBestLocalIPv6 sampleInterfaces = Str ''2001:db8::10''
   \<and> (\<exists>nm as a. (nm, as) \<in> set sampleInterfaces \<and> a \<in> set as \<and> qualifying a
         \<and> address a = ''2001:db8::10'')
   \<and> getBestLocalIPv6 [] = Null"
  using best_local_ipv6_first_qualifying [of sampleInterfaces]
    best_local_ipv6_first_qualifying [of "[]"]
  by (simp add: qualifyingAddresses_def sampleInterfaces_def qualifying_def lit_def)

text \<open>
  C7, as the claim states it, fails: on a host that enumerates \<^verbatim>\<open>wlan0\<close> before \<^verbatim>\<open>eth0\<close>,
  both with a qualifying address, the code returns the address of \<^verbatim>\<open>wlan0\<close>, where the
  priority order of the IPv4 selection ranks \<^verbatim>\<open>eth0\<close> first.
\<close>

theorem best_local_ipv6_ignores_priority:
  "getBestLocalIPv6 wirelessFirst = Str ''2001:db8::1''
   \<and> spec_bestLocalIPv6 wirelessFirst = Str ''2001:db8::2''"
  by (simp add: getBestLocalIPv6_def listInterfaces_def wirelessFirst_def whereIPv6_def
      notLinkLocalNorLoopback_def lit_def spec_bestLocalIPv6_def qualifying_def sortBy_def
      priority_values)

subsection \<open>Opening and closing the listeners\<close>

lemma filter_removeAll_keys:
  "filter (\<lambda>j. j \<notin> set ks) (removeAll k xs) = filter (\<lambda>j. j \<notin> set (k # ks)) xs"
  by (induction xs) auto

lemma fold_onSocketClose:
  "fold onSocketClose ks l = l\<lparr>sockets := filter (\<lambda>k. k \<notin> set ks) (sockets l)\<rparr>"
proof (induction ks arbitrary: l)
  case Nil
  show ?case by simp
next
  case (Cons k ks)
  show ?case
    by (simp only: fold_simps Cons.IH) (simp add: onSocketClose_def filter_removeAll_keys)
qed

lemma openFrom_result:
  "fst (openConnectionsFrom canBind k ls) = None
   \<and> fst (snd (openConnectionsFrom canBind k ls)) =
       map (\<lambda>(j, l). if listening l then l
                 else l\<lparr>errorPropagates := True, listening := canBind j (ifaceIp l) (ifacePort l)\<rparr>)
         (enumerate k ls)"
proof (induction ls arbitrary: k)
  case Nil
  show ?case by simp
next
  case (Cons l ls)
  from Cons.IH [of "Suc k"] show ?case
    by (simp add: Let_def split_beta)
qed




lemma closeFrom_result:
  "\<forall>l\<in>set ls. listening l \<longrightarrow> errorPropagates l \<Longrightarrow>
   fst (closeConnectionsFrom k ls) = None
   \<and> fst (snd (closeConnectionsFrom k ls)) = map (\<lambda>l. l\<lparr>listening := False\<rparr>) ls"
proof (induction ls arbitrary: k)
  case Nil
  show ?case by simp
next
  case (Cons l ls)
  from Cons.prems have "\<forall>l\<in>set ls. listening l \<longrightarrow> errorPropagates l" by simp
  from Cons.IH [OF this, of "Suc k"] Cons.prems show ?case
    by (simp add: Let_def split_beta closeSockets_def)
qed

lemma closeFrom_events:
  "\<forall>l\<in>set ls. listening l \<longrightarrow> errorPropagates l \<Longrightarrow>
   (CloseServer i \<in> set (snd (snd (closeConnectionsFrom k ls)))
      \<longleftrightarrow> k \<le> i \<and> i < k + length ls \<and> listening (ls ! (i - k)))
   \<and> (DestroySocket i s \<in> set (snd (snd (closeConnectionsFrom k ls)))
      \<longleftrightarrow> k \<le> i \<and> i < k + length ls \<and> listening (ls ! (i - k))
          \<and> s \<in> set (sockets (ls ! (i - k))))"
proof (induction ls arbitrary: k)
  case Nil
  show ?case by simp
next
  case (Cons l ls)
  have nth: "\<And>j. Suc k \<le> j \<Longrightarrow> (l # ls) ! (j - k) = ls ! (j - Suc k)"
    by (simp add: nth_Cons')
  from Cons.prems have "\<forall>l\<in>set ls. listening l \<longrightarrow> errorPropagates l" by simp
  from Cons.IH [OF this, of "Suc k"] have IH:
    "CloseServer i \<in> set (snd (snd (closeConnectionsFrom (Suc k) ls)))
      \<longleftrightarrow> Suc k \<le> i \<and> i < Suc k + length ls \<and> listening (ls ! (i - Suc k))"
    "DestroySocket i s \<in> set (snd (snd (closeConnectionsFrom (Suc k) ls)))
      \<longleftrightarrow> Suc k \<le> i \<and> i < Suc k + length ls \<and> listening (ls ! (i - Suc k))
          \<and> s \<in> set (sockets (ls ! (i - Suc k)))"
    by blast+
  show ?case
  proof (cases "i = k")
    case True
    with IH Cons.prems show ?thesis
      by (auto simp: Let_def split_beta closeSockets_def)
  next
    case False
    then have "k \<le> i \<longleftrightarrow> Suc k \<le> i" by auto
    moreover have "Suc k \<le> i \<Longrightarrow> (l # ls) ! (i - k) = ls ! (i - Suc k)" by (rule nth)
    ultimately show ?thesis using IH False Cons.prems
      by (auto simp: Let_def split_beta closeSockets_def)
  qed
qed


lemma closeFrom_order:
  "\<forall>l\<in>set ls. listening l \<longrightarrow> errorPropagates l \<Longrightarrow>
   DestroySocket i s \<in> set (snd (snd (closeConnectionsFrom k ls))) \<Longrightarrow>
   \<exists>before after. snd (snd (closeConnectionsFrom k ls)) = before @ DestroySocket i s # after
      \<and> CloseServer i \<in> set after \<and> CloseServer i \<notin> set before"
proof (induction ls arbitrary: k)
  case Nil
  then show ?case by simp
next
  case (Cons l ls)
  let ?rest = "snd (snd (closeConnectionsFrom (Suc k) ls))"
  have inv: "\<forall>l\<in>set ls. listening l \<longrightarrow> errorPropagates l" using Cons.prems(1) by simp
  show ?case
  proof (cases "listening l")
    case False
    then have evs: "snd (snd (closeConnectionsFrom k (l # ls))) = ?rest"
      by (simp add: split_beta)
    from Cons.prems(2) have "DestroySocket i s \<in> set ?rest" unfolding evs .
    from Cons.IH [OF inv this] show ?thesis unfolding evs .
  next
    case True
    with Cons.prems(1) have ep: "errorPropagates l" by simp
    have evs: "snd (snd (closeConnectionsFrom k (l # ls)))
                 = map (DestroySocket k) (sockets l) @ CloseServer k # ?rest"
      using True ep by (simp add: Let_def closeSockets_def split_beta)
    show ?thesis
    proof (cases "DestroySocket i s \<in> set (map (DestroySocket k) (sockets l))")
      case True
      then have ik: "i = k" and "s \<in> set (sockets l)" by auto
      then obtain s1 s2 where sp: "sockets l = s1 @ s # s2"
        by (meson split_list)
      have "CloseServer i \<notin> set (map (DestroySocket k) s1)" by auto
      moreover have "snd (snd (closeConnectionsFrom k (l # ls)))
          = map (DestroySocket k) s1 @ DestroySocket i s
              # (map (DestroySocket k) s2 @ CloseServer k # ?rest)"
        unfolding evs by (simp add: sp ik)
      moreover have "CloseServer i \<in> set (map (DestroySocket k) s2 @ CloseServer k # ?rest)"
        by (simp add: ik)
      ultimately show ?thesis by blast
    next
      case False
      with Cons.prems(2) have inrest: "DestroySocket i s \<in> set ?rest" unfolding evs by simp
      from Cons.IH [OF inv inrest] obtain b a where
        r: "?rest = b @ DestroySocket i s # a" and a: "CloseServer i \<in> set a"
        and b: "CloseServer i \<notin> set b"
        by blast
      from inrest closeFrom_events [OF inv, of i "Suc k" s] have "Suc k \<le> i" by simp
      then have "CloseServer i \<notin> set (map (DestroySocket k) (sockets l) @ CloseServer k # b)"
        using b by auto
      moreover have "snd (snd (closeConnectionsFrom k (l # ls)))
          = (map (DestroySocket k) (sockets l) @ CloseServer k # b) @ DestroySocket i s # a"
        unfolding evs by (simp add: r)
      ultimately show ?thesis using a by blast
    qed
  qed
qed

lemma open_consistent:
  assumes "\<forall>l\<in>set ls. consistent l" "openConnections canBind ls = (err, ls', evs)"
  shows "\<forall>l\<in>set ls'. consistent l"
proof -
  have "ls' = map (\<lambda>(j, l). if listening l then l
                 else l\<lparr>errorPropagates := True, listening := canBind j (ifaceIp l) (ifacePort l)\<rparr>)
         (enumerate 0 ls)"
    using openFrom_result [of canBind 0 ls] assms(2) by (simp add: openConnections_def)
  with assms(1) show ?thesis
    by (auto simp: consistent_def in_set_enumerate_eq)
qed

lemma close_consistent:
  assumes "\<forall>l\<in>set ls. consistent l" "closeConnections ls = (err, ls', evs)"
  shows "err = None"
    and "ls' = map (\<lambda>l. l\<lparr>listening := False\<rparr>) ls"
    and "\<forall>l\<in>set ls'. consistent l \<and> \<not> listening l"
proof -
  have inv: "\<forall>l\<in>set ls. listening l \<longrightarrow> errorPropagates l"
    using assms(1) by (simp add: consistent_def)
  from closeFrom_result [OF inv, of 0] assms(2)
  show e: "err = None"
    and l: "ls' = map (\<lambda>l. l\<lparr>listening := False\<rparr>) ls"
    by (simp_all add: closeConnections_def)
  show "\<forall>l\<in>set ls'. consistent l \<and> \<not> listening l"
    unfolding l by (auto simp: consistent_def)
qed

lemma reachable_consistent: "reachable ls \<Longrightarrow> \<forall>l\<in>set ls. consistent l"
proof (induction rule: reachable.induct)
  case (created interfaces ls)
  then show ?case
    by (auto simp: createServersAndListen_def consistent_def Let_def split: if_splits)
next
  case (opened ls canBind err ls' evs)
  then show ?case using open_consistent by blast
next
  case (closed ls err ls' evs)
  then show ?case using close_consistent(3) by blast
next
  case (accepted ls i)
  then have "consistent (onConnection (ls ! i))"
    by (simp add: consistent_def onConnection_def Let_def)
  with accepted.IH show ?case
    by (metis insert_iff set_update_subset_insert subsetD)
next
  case (ended ls i socketId)
  then have "consistent (onSocketClose socketId (ls ! i))"
    by (simp add: consistent_def onSocketClose_def)
  with ended.IH show ?case
    by (metis insert_iff set_update_subset_insert subsetD)
qed

lemma fresh_reachable: "reachable freshListeners"
  by (rule reachable.created [of "[(''127.0.0.1'', Num 10400), (''::1'', Num 10400)]"])
    (simp add: createServersAndListen_def freshListeners_def)

lemma busy_reachable: "reachable busyListeners"
proof -
  let ?a = "\<lparr>ifaceIp = ''127.0.0.1'', ifacePort = Num 10400, listening = True, sockets = [],
       nextSocketId = 0, errorPropagates = True\<rparr>"
  let ?b = "\<lparr>ifaceIp = ''::1'', ifacePort = Num 10400, listening = True, sockets = [],
       nextSocketId = 0, errorPropagates = True\<rparr>"
  have "openConnections (\<lambda>i anIp aPort. True) freshListeners = (None, [?a, ?b], [Bound 0, Bound 1])"
    by (simp add: openConnections_def freshListeners_def)
  from reachable.opened [OF fresh_reachable this] have r1: "reachable [?a, ?b]" .
  from reachable.accepted [OF r1, of 0] have r2: "reachable [onConnection ?a, ?b]" by simp
  from reachable.accepted [OF r2, of 0] have r3: "reachable [onConnection (onConnection ?a), ?b]"
    by (simp add: onConnection_def)
  from reachable.accepted [OF r3, of 1]
  have "reachable [onConnection (onConnection ?a), onConnection ?b]"
    by simp
  then show ?thesis by (simp add: busyListeners_def onConnection_def numeral_2_eq_2)
qed

lemma busy_close:
  "closeConnections busyListeners =
     (None,
      [\<lparr>ifaceIp = ''127.0.0.1'', ifacePort = Num 10400, listening = False, sockets = [0, 1],
        nextSocketId = 2, errorPropagates = True\<rparr>,
       \<lparr>ifaceIp = ''::1'', ifacePort = Num 10400, listening = False, sockets = [0],
        nextSocketId = 1, errorPropagates = True\<rparr>],
      [DestroySocket 0 0, DestroySocket 0 1, CloseServer 0, DestroySocket 1 0, CloseServer 1])"
  by (simp add: closeConnections_def busyListeners_def closeSockets_def)




text \<open>
  C5, as the code has it. Closing is forceful and ordered. For every listening entry,
  \<^verbatim>\<open>closeConnections\<close> destroys every connection of the socket registry, without waiting,
  and closes the server; each destruction of a connection of an interface comes before the
  close of that interface's server, never after it, and only connections that a listening
  interface tracked are destroyed. When \<^verbatim>\<open>closeConnections\<close> is done no interface listens,
  and the registries are as they were: a destroyed connection leaves the registry when its
  \<^verbatim>\<open>'close'\<close> event is handled. Once the events of the connections it destroyed are handled,
  the registry of such an interface is empty.
\<close>

theorem close_destroys_then_closes:
  assumes "reachable ls" and "closeConnections ls = (err, ls', evs)"
  shows "err = None
    \<and> length ls' = length ls
    \<and> (\<forall>l\<in>set ls'. \<not> listening l)
    \<and> map sockets ls' = map sockets ls
    \<and> (\<forall>i<length ls. listening (ls ! i) \<longrightarrow>
          CloseServer i \<in> set evs \<and> (\<forall>s\<in>set (sockets (ls ! i)). DestroySocket i s \<in> set evs))
    \<and> (\<forall>i s. DestroySocket i s \<in> set evs \<longrightarrow>
          i < length ls \<and> listening (ls ! i) \<and> s \<in> set (sockets (ls ! i)))
    \<and> (\<forall>i s. DestroySocket i s \<in> set evs \<longrightarrow>
          (\<exists>before after. evs = before @ DestroySocket i s # after
             \<and> CloseServer i \<in> set after \<and> CloseServer i \<notin> set before))
    \<and> (\<forall>i<length ls. listening (ls ! i) \<longrightarrow>
          sockets (fold onSocketClose (sockets (ls ! i)) (ls' ! i)) = [])"
proof -
  have c: "\<forall>l\<in>set ls. consistent l" using assms(1) by (rule reachable_consistent)
  then have inv: "\<forall>l\<in>set ls. listening l \<longrightarrow> errorPropagates l"
    by (simp add: consistent_def)
  have evs: "evs = snd (snd (closeConnectionsFrom 0 ls))"
    using assms(2) by (simp add: closeConnections_def)
  have l: "ls' = map (\<lambda>l. l\<lparr>listening := False\<rparr>) ls"
    using close_consistent(2) [OF c assms(2)] .
  have "err = None" using close_consistent(1) [OF c assms(2)] .
  moreover have "length ls' = length ls" unfolding l by simp
  moreover have "\<forall>l\<in>set ls'. \<not> listening l"
    using close_consistent(3) [OF c assms(2)] by blast
  moreover have "map sockets ls' = map sockets ls" unfolding l by simp
  moreover have "\<forall>i<length ls. listening (ls ! i) \<longrightarrow>
          CloseServer i \<in> set evs \<and> (\<forall>s\<in>set (sockets (ls ! i)). DestroySocket i s \<in> set evs)"
    using closeFrom_events [OF inv, of _ 0] unfolding evs by simp
  moreover have "\<forall>i s. DestroySocket i s \<in> set evs \<longrightarrow>
          i < length ls \<and> listening (ls ! i) \<and> s \<in> set (sockets (ls ! i))"
    using closeFrom_events [OF inv, of _ 0] unfolding evs by simp
  moreover have "\<forall>i s. DestroySocket i s \<in> set evs \<longrightarrow>
          (\<exists>before after. evs = before @ DestroySocket i s # after
             \<and> CloseServer i \<in> set after \<and> CloseServer i \<notin> set before)"
    using closeFrom_order [OF inv, of _ _ 0] unfolding evs by blast
  moreover have "\<forall>i<length ls. listening (ls ! i) \<longrightarrow>
          sockets (fold onSocketClose (sockets (ls ! i)) (ls' ! i)) = []"
    unfolding l by (simp add: fold_onSocketClose)
  ultimately show ?thesis by blast
qed

theorem close_destroys_then_closes_witness:
  "reachable busyListeners
   \<and> map sockets busyListeners = [[0, 1], [0]]
   \<and> fst (closeConnections busyListeners) = None
   \<and> map listening (fst (snd (closeConnections busyListeners))) = [False, False]
   \<and> snd (snd (closeConnections busyListeners))
       = [DestroySocket 0 0, DestroySocket 0 1, CloseServer 0, DestroySocket 1 0, CloseServer 1]
   \<and> (\<exists>before after. snd (snd (closeConnections busyListeners)) = before @ DestroySocket 1 0 # after
         \<and> CloseServer 1 \<in> set after \<and> CloseServer 1 \<notin> set before)
   \<and> sockets (fold onSocketClose (sockets (busyListeners ! 0))
        (fst (snd (closeConnections busyListeners)) ! 0)) = []"
proof -
  let ?evs = "[DestroySocket 0 0, DestroySocket 0 1, CloseServer 0, DestroySocket 1 0,
               CloseServer 1]"
  note t = close_destroys_then_closes [OF busy_reachable busy_close]
  note order = t [THEN conjunct2, THEN conjunct2, THEN conjunct2, THEN conjunct2,
    THEN conjunct2, THEN conjunct2, THEN conjunct1]
  note handled = t [THEN conjunct2, THEN conjunct2, THEN conjunct2, THEN conjunct2,
    THEN conjunct2, THEN conjunct2, THEN conjunct2]
  have "DestroySocket 1 0 \<in> set ?evs" by simp
  with order have o: "\<exists>before after. ?evs = before @ DestroySocket 1 0 # after
             \<and> CloseServer 1 \<in> set after \<and> CloseServer 1 \<notin> set before"
    by blast
  have "0 < length busyListeners" "listening (busyListeners ! 0)"
    by (simp_all add: busyListeners_def)
  with handled have h: "sockets (fold onSocketClose (sockets (busyListeners ! 0))
        (fst (snd (closeConnections busyListeners)) ! 0)) = []"
    unfolding busy_close by (metis fst_conv snd_conv)
  have "map sockets busyListeners = [[0, 1], [0]]" by (simp add: busyListeners_def)
  with o h busy_reachable show ?thesis by (simp add: busy_close)
qed

text \<open>
  C5, as the claim states it, fails: with two connections open on the first interface and
  one on the second, the registries still hold all three when \<^verbatim>\<open>closeConnections\<close> is done.
\<close>

theorem close_leaves_registries:
  "map sockets busyListeners = [[0, 1], [0]]
   \<and> map sockets (fst (snd (closeConnections busyListeners))) = [[0, 1], [0]]"
  by (simp add: busy_close) (simp add: busyListeners_def)

end
